theory Spec2Isabelle
  imports Main "HOL-Library.Word"
begin

section \<open>Errors and provider objects\<close>

text \<open>
  Go's \<open>error\<close> values. The services this code consumes either report that the remote
  object is not there (\<open>NotFound\<close>) or fail otherwise (\<open>Failure\<close>, with its message);
  \<open>fmt.Errorf(ctx + "%s", err)\<close> and \<open>errwrap.Wrapf(ctx + "{{err}}", err)\<close> build a
  new error around one: \<open>Errorf ctx err\<close>, \<open>Wrapf ctx err\<close>.
\<close>

datatype error =
    NotFound
  | Failure string
  | Errorf string error
  | Wrapf string error

text \<open>\<open>*compute.Operation\<close>: the handle of a long-running operation.\<close>

datatype operation = Operation string

text \<open>
  \<open>compute.TargetSslProxy\<close> and \<open>compute.TargetHttpsProxy\<close>, with the fields the
  resources read or write. A field left out of a Go composite literal holds its zero value.
\<close>

record TargetSslProxy =
  Ssl_Name :: string
  Ssl_Service :: string
  Ssl_ProxyHeader :: string
  Ssl_Description :: string
  Ssl_SslCertificates :: "string list"
  Ssl_SslPolicy :: string
  Ssl_Id :: "64 word"
  Ssl_SelfLink :: string

record TargetHttpsProxy =
  Https_Name :: string
  Https_UrlMap :: string
  Https_Description :: string
  Https_SslCertificates :: "string list"
  Https_SslPolicy :: string
  Https_Id :: "64 word"
  Https_SelfLink :: string

text \<open>\<open>strconv.FormatUint(i, 10)\<close>: the decimal digits of an unsigned 64-bit integer.\<close>

definition digit_char :: "nat \<Rightarrow> char" where
  "digit_char n = ''0123456789'' ! n"

function decimal :: "nat \<Rightarrow> string" where
  "decimal n = (if n < 10 then [digit_char n] else decimal (n div 10) @ [digit_char (n mod 10)])"
  by pat_completeness auto
termination
  by (relation "measure (\<lambda>n. n)") auto

declare decimal.simps [simp del]

definition FormatUint :: "64 word \<Rightarrow> string" where
  "FormatUint i = decimal (unat i)"

section \<open>The schema declarations\<close>

datatype ValueType = TypeInvalid | TypeString | TypeList

datatype SchemaDiffSuppressFunc = compareSelfLinkOrResourceName | compareSelfLinkRelativePaths

record ElemSchema =
  Elem_Type :: ValueType
  Elem_DiffSuppressFunc :: "SchemaDiffSuppressFunc option"

record Schema =
  Type :: ValueType
  Required :: bool
  Optional :: bool
  Computed :: bool
  ForceNew :: bool
  MinItems :: nat
  MaxItems :: nat
  Default :: "string option"
  Elem :: "ElemSchema option"
  DiffSuppressFunc :: "SchemaDiffSuppressFunc option"

text \<open>A \<open>schema.Schema\<close> literal starts from the zero value of every field.\<close>

definition zeroSchema :: Schema where
  "zeroSchema = \<lparr>Type = TypeInvalid, Required = False, Optional = False, Computed = False,
     ForceNew = False, MinItems = 0, MaxItems = 0, Default = None, Elem = None,
     DiffSuppressFunc = None\<rparr>"

definition resourceComputeTargetSslProxy_Schema :: "(string \<times> Schema) list" where
  "resourceComputeTargetSslProxy_Schema =
    [(''name'', zeroSchema\<lparr>Type := TypeString, Required := True, ForceNew := True\<rparr>),
     (''backend_service'', zeroSchema\<lparr>Type := TypeString, Required := True\<rparr>),
     (''ssl_certificates'', zeroSchema\<lparr>Type := TypeList, Required := True, MaxItems := 1,
        Elem := Some \<lparr>Elem_Type = TypeString,
                       Elem_DiffSuppressFunc = Some compareSelfLinkOrResourceName\<rparr>\<rparr>),
     (''description'', zeroSchema\<lparr>Type := TypeString, Optional := True, ForceNew := True\<rparr>),
     (''proxy_header'', zeroSchema\<lparr>Type := TypeString, Optional := True,
        Default := Some ''NONE''\<rparr>),
     (''ssl_policy'', zeroSchema\<lparr>Type := TypeString, Optional := True,
        DiffSuppressFunc := Some compareSelfLinkRelativePaths\<rparr>),
     (''project'', zeroSchema\<lparr>Type := TypeString, Optional := True, Computed := True,
        ForceNew := True\<rparr>),
     (''proxy_id'', zeroSchema\<lparr>Type := TypeString, Computed := True\<rparr>),
     (''self_link'', zeroSchema\<lparr>Type := TypeString, Computed := True\<rparr>)]"

definition resourceComputeTargetHttpsProxy_Schema :: "(string \<times> Schema) list" where
  "resourceComputeTargetHttpsProxy_Schema =
    [(''name'', zeroSchema\<lparr>Type := TypeString, Required := True, ForceNew := True\<rparr>),
     (''ssl_certificates'', zeroSchema\<lparr>Type := TypeList, Required := True,
        Elem := Some \<lparr>Elem_Type = TypeString,
                       Elem_DiffSuppressFunc = Some compareSelfLinkOrResourceName\<rparr>\<rparr>),
     (''url_map'', zeroSchema\<lparr>Type := TypeString, Required := True,
        DiffSuppressFunc := Some compareSelfLinkRelativePaths\<rparr>),
     (''ssl_policy'', zeroSchema\<lparr>Type := TypeString, Optional := True,
        DiffSuppressFunc := Some compareSelfLinkRelativePaths\<rparr>),
     (''description'', zeroSchema\<lparr>Type := TypeString, Optional := True, ForceNew := True\<rparr>),
     (''self_link'', zeroSchema\<lparr>Type := TypeString, Computed := True\<rparr>),
     (''proxy_id'', zeroSchema\<lparr>Type := TypeString, Computed := True\<rparr>),
     (''project'', zeroSchema\<lparr>Type := TypeString, Optional := True, Computed := True,
        ForceNew := True\<rparr>)]"

section \<open>Local state: \<open>schema.ResourceData\<close>\<close>

text \<open>
  The keys of the two schemas, each with the Go type its schema gives it, so that the type
  assertions of the source (\<open>d.Get("name").(string)\<close>) cannot fail and a key that was never
  set reads as its zero value. \<open>ResourceData\<close> is one type for every resource; each resource
  reads and writes the keys of its own schema only.
\<close>

record fields =
  name :: string
  backend_service :: string
  url_map :: string
  ssl_certificates :: "string list"
  description :: string
  proxy_header :: string
  ssl_policy :: string
  project :: string
  proxy_id :: string
  self_link :: string

text \<open>
  \<open>rd_state\<close> holds the last-known values, \<open>rd_values\<close> the declared ones (and what
  \<open>d.Set\<close> wrote since); \<open>rd_partial\<close> and \<open>rd_partial_keys\<close> are the partial mode and
  the keys marked by \<open>d.SetPartial\<close>.
\<close>

record ResourceData =
  rd_id :: string
  rd_state :: fields
  rd_values :: fields
  rd_partial :: bool
  rd_partial_keys :: "string list"

definition Get :: "(fields \<Rightarrow> 'a) \<Rightarrow> ResourceData \<Rightarrow> 'a" where
  "Get key d = key (rd_values d)"

text \<open>\<open>d.GetOk\<close> on a string key: the value, and whether it differs from the zero value.\<close>

definition GetOk :: "(fields \<Rightarrow> string) \<Rightarrow> ResourceData \<Rightarrow> string \<times> bool" where
  "GetOk key d = (key (rd_values d), key (rd_values d) \<noteq> [])"

definition HasChange :: "(fields \<Rightarrow> 'a) \<Rightarrow> ResourceData \<Rightarrow> bool" where
  "HasChange key d = (key (rd_state d) \<noteq> key (rd_values d))"

definition SetId :: "string \<Rightarrow> ResourceData \<Rightarrow> ResourceData" where
  "SetId v d = d\<lparr>rd_id := v\<rparr>"

definition Partial :: "bool \<Rightarrow> ResourceData \<Rightarrow> ResourceData" where
  "Partial on d = (if on then d\<lparr>rd_partial := True\<rparr>
                   else d\<lparr>rd_partial := False, rd_partial_keys := []\<rparr>)"

definition SetPartial :: "string \<Rightarrow> ResourceData \<Rightarrow> ResourceData" where
  "SetPartial k d = (if rd_partial d then d\<lparr>rd_partial_keys := rd_partial_keys d @ [k]\<rparr> else d)"

section \<open>The remote provider and the calls issued to it\<close>

text \<open>Every request the resources send, with its arguments, in the order it was sent.\<close>

datatype api_call =
    SslInsert string TargetSslProxy
  | SslGet string string
  | SslDelete string string
  | SslSetProxyHeader string string string
  | SslSetBackendService string string string
  | SslSetSslCertificates string string "string list"
  | SslSetSslPolicy string string string
  | HttpsInsert string TargetHttpsProxy
  | HttpsGet string string
  | HttpsDelete string string
  | HttpsSetUrlMap string string string
  | HttpsSetSslCertificates string string "string list"
  | HttpsSetSslPolicy string string string
  | OperationWait operation string string
  | SharedOperationWait operation string string

record 'r world =
  remote :: 'r
  trace :: "api_call list"

text \<open>
  \<open>config.clientCompute.TargetSslProxies\<close> and \<open>TargetHttpsProxies\<close>: the generated
  client, over a provider state \<open>'r\<close>. A mutating request returns an operation or an error
  and the provider's new state; \<open>Get\<close> is a read and returns the object or an error.
\<close>

record 'r TargetSslProxiesService =
  ssl_Insert :: "string \<Rightarrow> TargetSslProxy \<Rightarrow> 'r \<Rightarrow> (error + operation) \<times> 'r"
  ssl_Get :: "string \<Rightarrow> string \<Rightarrow> 'r \<Rightarrow> error + TargetSslProxy"
  ssl_Delete :: "string \<Rightarrow> string \<Rightarrow> 'r \<Rightarrow> (error + operation) \<times> 'r"
  ssl_SetProxyHeader :: "string \<Rightarrow> string \<Rightarrow> string \<Rightarrow> 'r \<Rightarrow> (error + operation) \<times> 'r"
  ssl_SetBackendService :: "string \<Rightarrow> string \<Rightarrow> string \<Rightarrow> 'r \<Rightarrow> (error + operation) \<times> 'r"
  ssl_SetSslCertificates ::
    "string \<Rightarrow> string \<Rightarrow> string list \<Rightarrow> 'r \<Rightarrow> (error + operation) \<times> 'r"
  ssl_SetSslPolicy :: "string \<Rightarrow> string \<Rightarrow> string \<Rightarrow> 'r \<Rightarrow> (error + operation) \<times> 'r"

record 'r TargetHttpsProxiesService =
  https_Insert :: "string \<Rightarrow> TargetHttpsProxy \<Rightarrow> 'r \<Rightarrow> (error + operation) \<times> 'r"
  https_Get :: "string \<Rightarrow> string \<Rightarrow> 'r \<Rightarrow> error + TargetHttpsProxy"
  https_Delete :: "string \<Rightarrow> string \<Rightarrow> 'r \<Rightarrow> (error + operation) \<times> 'r"
  https_SetUrlMap :: "string \<Rightarrow> string \<Rightarrow> string \<Rightarrow> 'r \<Rightarrow> (error + operation) \<times> 'r"
  https_SetSslCertificates ::
    "string \<Rightarrow> string \<Rightarrow> string list \<Rightarrow> 'r \<Rightarrow> (error + operation) \<times> 'r"
  https_SetSslPolicy :: "string \<Rightarrow> string \<Rightarrow> string \<Rightarrow> 'r \<Rightarrow> (error + operation) \<times> 'r"

text \<open>
  \<open>*Config\<close> with the shared helpers that take it: the project resolver, the two reference
  parsers (Go's pair of a field value and an error) with \<open>RelativeLink\<close> on their result,
  and the two operation waiters. They are not defined in these files and stay parameters.
\<close>

record ('r, 'fv) Config =
  getProject :: "ResourceData \<Rightarrow> error + string"
  ParseSslCertificateFieldValue :: "string \<Rightarrow> ResourceData \<Rightarrow> 'fv \<times> error option"
  ParseSslPolicyFieldValue :: "string \<Rightarrow> ResourceData \<Rightarrow> 'fv \<times> error option"
  RelativeLink :: "'fv \<Rightarrow> string"
  computeOperationWait :: "operation \<Rightarrow> string \<Rightarrow> string \<Rightarrow> 'r \<Rightarrow> error option \<times> 'r"
  computeSharedOperationWait :: "operation \<Rightarrow> string \<Rightarrow> string \<Rightarrow> 'r \<Rightarrow> error option \<times> 'r"
  TargetSslProxies :: "'r TargetSslProxiesService"
  TargetHttpsProxies :: "'r TargetHttpsProxiesService"

section \<open>Sequencing with early return\<close>

text \<open>
  A resource function runs on the local state \<open>d\<close> and the world, and returns an error
  (Go's \<open>return err\<close>, which ends the function) or a value.
\<close>

type_synonym ('r, 'a) action =
  "ResourceData \<times> 'r world \<Rightarrow> (error + 'a) \<times> (ResourceData \<times> 'r world)"

definition succeed :: "'a \<Rightarrow> ('r, 'a) action" where
  "succeed x = (\<lambda>s. (Inr x, s))"

definition fail_with :: "error \<Rightarrow> ('r, 'a) action" where
  "fail_with e = (\<lambda>s. (Inl e, s))"

definition and_then :: "('r, 'a) action \<Rightarrow> ('a \<Rightarrow> ('r, 'b) action) \<Rightarrow> ('r, 'b) action" where
  "and_then m f = (\<lambda>s. case m s of (Inl e, s') \<Rightarrow> (Inl e, s') | (Inr x, s') \<Rightarrow> f x s')"

definition on_error :: "(error \<Rightarrow> error) \<Rightarrow> ('r, 'a) action \<Rightarrow> ('r, 'a) action" where
  "on_error g m = (\<lambda>s. case m s of (Inl e, s') \<Rightarrow> (Inl (g e), s') | (Inr x, s') \<Rightarrow> (Inr x, s'))"

definition with_d :: "(ResourceData \<Rightarrow> ('r, 'a) action) \<Rightarrow> ('r, 'a) action" where
  "with_d f = (\<lambda>s. f (fst s) s)"

definition lift :: "(ResourceData \<Rightarrow> error + 'a) \<Rightarrow> ('r, 'a) action" where
  "lift f = (\<lambda>s. (f (fst s), s))"

definition modify :: "(ResourceData \<Rightarrow> ResourceData) \<Rightarrow> ('r, unit) action" where
  "modify f = (\<lambda>s. (Inr (), (f (fst s), snd s)))"

text \<open>A request: it is appended to the trace and the provider answers it.\<close>

definition request ::
  "api_call \<Rightarrow> ('r \<Rightarrow> (error + 'a) \<times> 'r) \<Rightarrow> ('r, 'a) action" where
  "request c f = (\<lambda>s. case f (remote (snd s)) of
      (res, r') \<Rightarrow> (res, (fst s, \<lparr>remote = r', trace = trace (snd s) @ [c]\<rparr>)))"

definition fetch :: "api_call \<Rightarrow> ('r \<Rightarrow> error + 'a) \<Rightarrow> ('r, 'a) action" where
  "fetch c f = (\<lambda>s. (f (remote (snd s)),
      (fst s, \<lparr>remote = remote (snd s), trace = trace (snd s) @ [c]\<rparr>)))"

definition wait :: "api_call \<Rightarrow> ('r \<Rightarrow> error option \<times> 'r) \<Rightarrow> ('r, unit) action" where
  "wait c f = (\<lambda>s. case f (remote (snd s)) of
      (res, r') \<Rightarrow> ((case res of None \<Rightarrow> Inr () | Some e \<Rightarrow> Inl e),
                    (fst s, \<lparr>remote = r', trace = trace (snd s) @ [c]\<rparr>)))"

text \<open>
  \<open>v, err := m; if err != nil { return h(err) }; rest\<close> is \<open>and_then (on_error h m) rest\<close>;
  \<open>handle\<close> is the same with a handler that may itself change the state and succeed.
\<close>

definition handle ::
  "('r, 'a) action \<Rightarrow> (error \<Rightarrow> ('r, 'b) action) \<Rightarrow> ('a \<Rightarrow> ('r, 'b) action) \<Rightarrow> ('r, 'b) action" where
  "handle m h f = (\<lambda>s. case m s of (Inl e, s') \<Rightarrow> h e s' | (Inr x, s') \<Rightarrow> f x s')"

definition Set :: "(('a \<Rightarrow> 'a) \<Rightarrow> fields \<Rightarrow> fields) \<Rightarrow> 'a \<Rightarrow> ResourceData \<Rightarrow> ResourceData" where
  "Set key_update v d = d\<lparr>rd_values := key_update (\<lambda>_. v) (rd_values d)\<rparr>"

section \<open>The requests of the two clients\<close>

definition TargetSslProxies_Insert ::
  "('r, 'fv) Config \<Rightarrow> string \<Rightarrow> TargetSslProxy \<Rightarrow> ('r, operation) action" where
  "TargetSslProxies_Insert cfg proj proxy =
     request (SslInsert proj proxy) (ssl_Insert (TargetSslProxies cfg) proj proxy)"

definition TargetSslProxies_Get ::
  "('r, 'fv) Config \<Rightarrow> string \<Rightarrow> string \<Rightarrow> ('r, TargetSslProxy) action" where
  "TargetSslProxies_Get cfg proj i =
     fetch (SslGet proj i) (ssl_Get (TargetSslProxies cfg) proj i)"

definition TargetSslProxies_Delete ::
  "('r, 'fv) Config \<Rightarrow> string \<Rightarrow> string \<Rightarrow> ('r, operation) action" where
  "TargetSslProxies_Delete cfg proj i =
     request (SslDelete proj i) (ssl_Delete (TargetSslProxies cfg) proj i)"

definition TargetSslProxies_SetProxyHeader ::
  "('r, 'fv) Config \<Rightarrow> string \<Rightarrow> string \<Rightarrow> string \<Rightarrow> ('r, operation) action" where
  "TargetSslProxies_SetProxyHeader cfg proj i v =
     request (SslSetProxyHeader proj i v) (ssl_SetProxyHeader (TargetSslProxies cfg) proj i v)"

definition TargetSslProxies_SetBackendService ::
  "('r, 'fv) Config \<Rightarrow> string \<Rightarrow> string \<Rightarrow> string \<Rightarrow> ('r, operation) action" where
  "TargetSslProxies_SetBackendService cfg proj i v =
     request (SslSetBackendService proj i v) (ssl_SetBackendService (TargetSslProxies cfg) proj i v)"

definition TargetSslProxies_SetSslCertificates ::
  "('r, 'fv) Config \<Rightarrow> string \<Rightarrow> string \<Rightarrow> string list \<Rightarrow> ('r, operation) action" where
  "TargetSslProxies_SetSslCertificates cfg proj i v =
     request (SslSetSslCertificates proj i v) (ssl_SetSslCertificates (TargetSslProxies cfg) proj i v)"

definition TargetSslProxies_SetSslPolicy ::
  "('r, 'fv) Config \<Rightarrow> string \<Rightarrow> string \<Rightarrow> string \<Rightarrow> ('r, operation) action" where
  "TargetSslProxies_SetSslPolicy cfg proj i v =
     request (SslSetSslPolicy proj i v) (ssl_SetSslPolicy (TargetSslProxies cfg) proj i v)"

definition TargetHttpsProxies_Insert ::
  "('r, 'fv) Config \<Rightarrow> string \<Rightarrow> TargetHttpsProxy \<Rightarrow> ('r, operation) action" where
  "TargetHttpsProxies_Insert cfg proj proxy =
     request (HttpsInsert proj proxy) (https_Insert (TargetHttpsProxies cfg) proj proxy)"

definition TargetHttpsProxies_Get ::
  "('r, 'fv) Config \<Rightarrow> string \<Rightarrow> string \<Rightarrow> ('r, TargetHttpsProxy) action" where
  "TargetHttpsProxies_Get cfg proj i =
     fetch (HttpsGet proj i) (https_Get (TargetHttpsProxies cfg) proj i)"

definition TargetHttpsProxies_Delete ::
  "('r, 'fv) Config \<Rightarrow> string \<Rightarrow> string \<Rightarrow> ('r, operation) action" where
  "TargetHttpsProxies_Delete cfg proj i =
     request (HttpsDelete proj i) (https_Delete (TargetHttpsProxies cfg) proj i)"

definition TargetHttpsProxies_SetUrlMap ::
  "('r, 'fv) Config \<Rightarrow> string \<Rightarrow> string \<Rightarrow> string \<Rightarrow> ('r, operation) action" where
  "TargetHttpsProxies_SetUrlMap cfg proj i v =
     request (HttpsSetUrlMap proj i v) (https_SetUrlMap (TargetHttpsProxies cfg) proj i v)"

definition TargetHttpsProxies_SetSslCertificates ::
  "('r, 'fv) Config \<Rightarrow> string \<Rightarrow> string \<Rightarrow> string list \<Rightarrow> ('r, operation) action" where
  "TargetHttpsProxies_SetSslCertificates cfg proj i v =
     request (HttpsSetSslCertificates proj i v)
       (https_SetSslCertificates (TargetHttpsProxies cfg) proj i v)"

definition TargetHttpsProxies_SetSslPolicy ::
  "('r, 'fv) Config \<Rightarrow> string \<Rightarrow> string \<Rightarrow> string \<Rightarrow> ('r, operation) action" where
  "TargetHttpsProxies_SetSslPolicy cfg proj i v =
     request (HttpsSetSslPolicy proj i v) (https_SetSslPolicy (TargetHttpsProxies cfg) proj i v)"

definition OperationWait_call ::
  "('r, 'fv) Config \<Rightarrow> operation \<Rightarrow> string \<Rightarrow> string \<Rightarrow> ('r, unit) action" where
  "OperationWait_call cfg op proj activity =
     wait (OperationWait op proj activity) (computeOperationWait cfg op proj activity)"

definition SharedOperationWait_call ::
  "('r, 'fv) Config \<Rightarrow> operation \<Rightarrow> string \<Rightarrow> string \<Rightarrow> ('r, unit) action" where
  "SharedOperationWait_call cfg op proj activity =
     wait (SharedOperationWait op proj activity) (computeSharedOperationWait cfg op proj activity)"

section \<open>Helpers\<close>

text \<open>
  \<open>fmt.Sprintf("%q", s)\<close>: the string between double quotes (the escaping of special
  characters inside it is left out; no property below reads the message).
\<close>

definition quoted :: "string \<Rightarrow> string" where
  "quoted s = CHR 0x22 # s @ [CHR 0x22]"

text \<open>
  Modelled from the spec: \<open>handleNotFoundError\<close>, a shared helper of the provider that is
  not in these files. The spec: on read, if the remote object is absent, the local identity is
  cleared rather than failing; "not found" during read is the sole condition translated into
  a state change rather than an error; an API request error is wrapped with a short context
  string and surfaced.
\<close>

definition handleNotFoundError :: "error \<Rightarrow> string \<Rightarrow> ('r, unit) action" where
  "handleNotFoundError err resource =
     (if err = NotFound then modify (SetId [])
      else fail_with (Errorf (''Error reading '' @ resource @ '': '') err))"

text \<open>
  \<open>expandSslCertificates\<close>: the loop over the configured list, appending the relative link
  of each parsed reference and returning at the first one that does not parse.
\<close>

fun expandSslCertificates_loop ::
  "('r, 'fv) Config \<Rightarrow> ResourceData \<Rightarrow> string list \<Rightarrow> string list \<Rightarrow> error + string list" where
  "expandSslCertificates_loop cfg d [] certs = Inr certs"
| "expandSslCertificates_loop cfg d (sslCertificate # configured) certs =
     (case ParseSslCertificateFieldValue cfg sslCertificate d of
        (sslCertificateFieldValue, Some err) \<Rightarrow> Inl (Errorf ''Invalid ssl certificate: '' err)
      | (sslCertificateFieldValue, None) \<Rightarrow>
          expandSslCertificates_loop cfg d configured
            (certs @ [RelativeLink cfg sslCertificateFieldValue]))"

definition expandSslCertificates :: "('r, 'fv) Config \<Rightarrow> ResourceData \<Rightarrow> error + string list" where
  "expandSslCertificates cfg d = expandSslCertificates_loop cfg d (Get ssl_certificates d) []"

section \<open>The SSL proxy resource\<close>

definition resourceComputeTargetSslProxyRead :: "('r, 'fv) Config \<Rightarrow> ('r, unit) action" where
  "resourceComputeTargetSslProxyRead cfg =
     and_then (lift (getProject cfg)) (\<lambda>proj.
     with_d (\<lambda>d.
     handle (TargetSslProxies_Get cfg proj (rd_id d))
       (\<lambda>err. handleNotFoundError err (''Target SSL Proxy '' @ quoted (Get name d)))
       (\<lambda>proxy. modify (fold id
          [Set name_update (Ssl_Name proxy),
           Set description_update (Ssl_Description proxy),
           Set proxy_header_update (Ssl_ProxyHeader proxy),
           Set backend_service_update (Ssl_Service proxy),
           Set ssl_certificates_update (Ssl_SslCertificates proxy),
           Set ssl_policy_update (Ssl_SslPolicy proxy),
           Set project_update proj,
           Set self_link_update (Ssl_SelfLink proxy),
           Set proxy_id_update (FormatUint (Ssl_Id proxy))]))))"

text \<open>
  The \<open>if v, ok := d.GetOk("ssl_policy"); ok\<close> block of create, on the project and the
  name of the request body. The error of \<open>ParseSslPolicyFieldValue\<close> is assigned to
  \<open>err\<close> and overwritten by the next statement's \<open>op, err :=\<close> before anything reads it.
\<close>

definition ssl_create_ssl_policy ::
  "('r, 'fv) Config \<Rightarrow> string \<Rightarrow> string \<Rightarrow> ('r, unit) action" where
  "ssl_create_ssl_policy cfg proj proxy_Name =
     with_d (\<lambda>d.
        case GetOk ssl_policy d of (v, ok) \<Rightarrow>
          if ok then
            (case ParseSslPolicyFieldValue cfg v d of (pol, err) \<Rightarrow>
               and_then (on_error (Wrapf ''Error setting SSL Policy: '')
                          (TargetSslProxies_SetSslPolicy cfg proj proxy_Name
                             (RelativeLink cfg pol))) (\<lambda>op.
               SharedOperationWait_call cfg op proj ''Adding Target SSL Proxy SSL Policy''))
          else succeed ())"

definition resourceComputeTargetSslProxyCreate :: "('r, 'fv) Config \<Rightarrow> ('r, unit) action" where
  "resourceComputeTargetSslProxyCreate cfg =
     and_then (lift (getProject cfg)) (\<lambda>proj.
     and_then (lift (expandSslCertificates cfg)) (\<lambda>sslCertificates.
     with_d (\<lambda>d.
     let proxy = \<lparr>Ssl_Name = Get name d, Ssl_Service = Get backend_service d,
                  Ssl_ProxyHeader = Get proxy_header d, Ssl_Description = Get description d,
                  Ssl_SslCertificates = sslCertificates, Ssl_SslPolicy = [], Ssl_Id = 0,
                  Ssl_SelfLink = []\<rparr> in
     and_then (on_error (Errorf ''Error creating TargetSslProxy: '')
                (TargetSslProxies_Insert cfg proj proxy)) (\<lambda>op.
     and_then (OperationWait_call cfg op proj ''Creating Target Ssl Proxy'') (\<lambda>_.
     and_then (modify (SetId (Ssl_Name proxy))) (\<lambda>_.
     and_then (ssl_create_ssl_policy cfg proj (Ssl_Name proxy)) (\<lambda>_.
     resourceComputeTargetSslProxyRead cfg)))))))"

text \<open>The four \<open>if d.HasChange(...)\<close> blocks of update, in the order of the source.\<close>

definition ssl_update_proxy_header :: "('r, 'fv) Config \<Rightarrow> string \<Rightarrow> ('r, unit) action" where
  "ssl_update_proxy_header cfg proj =
     with_d (\<lambda>d.
       if HasChange proxy_header d then
         and_then (on_error (Errorf ''Error updating proxy_header: '')
                    (TargetSslProxies_SetProxyHeader cfg proj (rd_id d) (Get proxy_header d))) (\<lambda>op.
         and_then (OperationWait_call cfg op proj ''Updating Target SSL Proxy'') (\<lambda>_.
         modify (SetPartial ''proxy_header'')))
       else succeed ())"

definition ssl_update_backend_service :: "('r, 'fv) Config \<Rightarrow> string \<Rightarrow> ('r, unit) action" where
  "ssl_update_backend_service cfg proj =
     with_d (\<lambda>d.
       if HasChange backend_service d then
         and_then (on_error (Errorf ''Error updating backend_service: '')
                    (TargetSslProxies_SetBackendService cfg proj (rd_id d)
                       (Get backend_service d))) (\<lambda>op.
         and_then (OperationWait_call cfg op proj ''Updating Target SSL Proxy'') (\<lambda>_.
         modify (SetPartial ''backend_service'')))
       else succeed ())"

definition ssl_update_ssl_certificates :: "('r, 'fv) Config \<Rightarrow> string \<Rightarrow> ('r, unit) action" where
  "ssl_update_ssl_certificates cfg proj =
     with_d (\<lambda>d.
       if HasChange ssl_certificates d then
         and_then (lift (expandSslCertificates cfg)) (\<lambda>sslCertificates.
         and_then (on_error (Errorf ''Error updating backend_service: '')
                    (TargetSslProxies_SetSslCertificates cfg proj (rd_id d) sslCertificates)) (\<lambda>op.
         and_then (OperationWait_call cfg op proj ''Updating Target SSL Proxy'') (\<lambda>_.
         modify (SetPartial ''ssl_certificates''))))
       else succeed ())"

definition ssl_update_ssl_policy :: "('r, 'fv) Config \<Rightarrow> string \<Rightarrow> ('r, unit) action" where
  "ssl_update_ssl_policy cfg proj =
     with_d (\<lambda>d.
       if HasChange ssl_policy d then
         (case ParseSslPolicyFieldValue cfg (Get ssl_policy d) d of
            (pol, Some err) \<Rightarrow> fail_with err
          | (pol, None) \<Rightarrow>
              and_then (TargetSslProxies_SetSslPolicy cfg proj (rd_id d) (RelativeLink cfg pol)) (\<lambda>op.
              SharedOperationWait_call cfg op proj ''Updating Target SSL Proxy SSL Policy''))
       else succeed ())"

definition resourceComputeTargetSslProxyUpdate :: "('r, 'fv) Config \<Rightarrow> ('r, unit) action" where
  "resourceComputeTargetSslProxyUpdate cfg =
     and_then (lift (getProject cfg)) (\<lambda>proj.
     and_then (modify (Partial True)) (\<lambda>_.
     and_then (ssl_update_proxy_header cfg proj) (\<lambda>_.
     and_then (ssl_update_backend_service cfg proj) (\<lambda>_.
     and_then (ssl_update_ssl_certificates cfg proj) (\<lambda>_.
     and_then (ssl_update_ssl_policy cfg proj) (\<lambda>_.
     and_then (modify (Partial False)) (\<lambda>_.
     resourceComputeTargetSslProxyRead cfg)))))))"

definition resourceComputeTargetSslProxyDelete :: "('r, 'fv) Config \<Rightarrow> ('r, unit) action" where
  "resourceComputeTargetSslProxyDelete cfg =
     and_then (lift (getProject cfg)) (\<lambda>proj.
     with_d (\<lambda>d.
     and_then (on_error (Errorf ''Error deleting TargetSslProxy: '')
                (TargetSslProxies_Delete cfg proj (rd_id d))) (\<lambda>op.
     and_then (OperationWait_call cfg op proj ''Deleting Target SSL Proxy'') (\<lambda>_.
     modify (SetId [])))))"

section \<open>The HTTPS proxy resource\<close>

definition resourceComputeTargetHttpsProxyRead :: "('r, 'fv) Config \<Rightarrow> ('r, unit) action" where
  "resourceComputeTargetHttpsProxyRead cfg =
     and_then (lift (getProject cfg)) (\<lambda>proj.
     with_d (\<lambda>d.
     handle (TargetHttpsProxies_Get cfg proj (rd_id d))
       (\<lambda>err. handleNotFoundError err (''Target HTTPS proxy '' @ quoted (Get name d)))
       (\<lambda>proxy. modify (fold id
          [Set ssl_certificates_update (Https_SslCertificates proxy),
           Set proxy_id_update (FormatUint (Https_Id proxy)),
           Set self_link_update (Https_SelfLink proxy),
           Set description_update (Https_Description proxy),
           Set url_map_update (Https_UrlMap proxy),
           Set name_update (Https_Name proxy),
           Set project_update proj,
           Set ssl_policy_update (Https_SslPolicy proxy)]))))"

definition https_create_ssl_policy ::
  "('r, 'fv) Config \<Rightarrow> string \<Rightarrow> string \<Rightarrow> ('r, unit) action" where
  "https_create_ssl_policy cfg proj proxy_Name =
     with_d (\<lambda>d.
        case GetOk ssl_policy d of (v, ok) \<Rightarrow>
          if ok then
            (case ParseSslPolicyFieldValue cfg v d of (pol, err) \<Rightarrow>
               and_then (on_error (Wrapf ''Error setting Target HTTPS Proxy SSL Policy: '')
                          (TargetHttpsProxies_SetSslPolicy cfg proj proxy_Name
                             (RelativeLink cfg pol))) (\<lambda>op.
               SharedOperationWait_call cfg op proj ''Adding Target HTTPS Proxy SSL Policy''))
          else succeed ())"

definition resourceComputeTargetHttpsProxyCreate :: "('r, 'fv) Config \<Rightarrow> ('r, unit) action" where
  "resourceComputeTargetHttpsProxyCreate cfg =
     and_then (lift (getProject cfg)) (\<lambda>proj.
     and_then (lift (expandSslCertificates cfg)) (\<lambda>sslCertificates.
     with_d (\<lambda>d.
     let proxy0 = \<lparr>Https_Name = Get name d, Https_UrlMap = Get url_map d,
                   Https_Description = [], Https_SslCertificates = sslCertificates,
                   Https_SslPolicy = [], Https_Id = 0, Https_SelfLink = []\<rparr>;
         proxy = (case GetOk description d of (v, ok) \<Rightarrow>
                    if ok then proxy0\<lparr>Https_Description := v\<rparr> else proxy0) in
     and_then (on_error (Errorf ''Error creating TargetHttpsProxy: '')
                (TargetHttpsProxies_Insert cfg proj proxy)) (\<lambda>op.
     and_then (OperationWait_call cfg op proj ''Creating Target Https Proxy'') (\<lambda>_.
     and_then (modify (SetId (Https_Name proxy))) (\<lambda>_.
     and_then (https_create_ssl_policy cfg proj (Https_Name proxy)) (\<lambda>_.
     resourceComputeTargetHttpsProxyRead cfg)))))))"

definition https_update_url_map :: "('r, 'fv) Config \<Rightarrow> string \<Rightarrow> ('r, unit) action" where
  "https_update_url_map cfg proj =
     with_d (\<lambda>d.
       if HasChange url_map d then
         and_then (on_error (Errorf ''Error updating Target HTTPS proxy URL map: '')
                    (TargetHttpsProxies_SetUrlMap cfg proj (rd_id d) (Get url_map d))) (\<lambda>op.
         and_then (OperationWait_call cfg op proj ''Updating Target Https Proxy URL Map'') (\<lambda>_.
         modify (SetPartial ''url_map'')))
       else succeed ())"

definition https_update_ssl_certificates :: "('r, 'fv) Config \<Rightarrow> string \<Rightarrow> ('r, unit) action" where
  "https_update_ssl_certificates cfg proj =
     with_d (\<lambda>d.
       if HasChange ssl_certificates d then
         and_then (lift (expandSslCertificates cfg)) (\<lambda>certs.
         and_then (on_error (Errorf ''Error updating Target Https Proxy SSL Certificates: '')
                    (TargetHttpsProxies_SetSslCertificates cfg proj (rd_id d) certs)) (\<lambda>op.
         and_then (OperationWait_call cfg op proj
                     ''Updating Target Https Proxy SSL certificates'') (\<lambda>_.
         modify (SetPartial ''ssl_certificate''))))
       else succeed ())"

definition https_update_ssl_policy :: "('r, 'fv) Config \<Rightarrow> string \<Rightarrow> ('r, unit) action" where
  "https_update_ssl_policy cfg proj =
     with_d (\<lambda>d.
       if HasChange ssl_policy d then
         (case ParseSslPolicyFieldValue cfg (Get ssl_policy d) d of
            (pol, Some err) \<Rightarrow> fail_with err
          | (pol, None) \<Rightarrow>
              and_then (TargetHttpsProxies_SetSslPolicy cfg proj (rd_id d)
                          (RelativeLink cfg pol)) (\<lambda>op.
              SharedOperationWait_call cfg op proj ''Updating Target HTTPS Proxy SSL Policy''))
       else succeed ())"

definition resourceComputeTargetHttpsProxyUpdate :: "('r, 'fv) Config \<Rightarrow> ('r, unit) action" where
  "resourceComputeTargetHttpsProxyUpdate cfg =
     and_then (lift (getProject cfg)) (\<lambda>proj.
     and_then (modify (Partial True)) (\<lambda>_.
     and_then (https_update_url_map cfg proj) (\<lambda>_.
     and_then (https_update_ssl_certificates cfg proj) (\<lambda>_.
     and_then (https_update_ssl_policy cfg proj) (\<lambda>_.
     and_then (modify (Partial False)) (\<lambda>_.
     resourceComputeTargetHttpsProxyRead cfg))))))"

definition resourceComputeTargetHttpsProxyDelete :: "('r, 'fv) Config \<Rightarrow> ('r, unit) action" where
  "resourceComputeTargetHttpsProxyDelete cfg =
     and_then (lift (getProject cfg)) (\<lambda>proj.
     with_d (\<lambda>d.
     and_then (on_error (Errorf ''Error deleting TargetHttpsProxy: '')
                (TargetHttpsProxies_Delete cfg proj (rd_id d))) (\<lambda>op.
     and_then (OperationWait_call cfg op proj ''Deleting Target Https Proxy'') (\<lambda>_.
     modify (SetId [])))))"

section \<open>Reading a trace\<close>

text \<open>The requests that change the remote object, each kind with its recogniser.\<close>

fun is_SetSslPolicy :: "api_call \<Rightarrow> bool" where
  "is_SetSslPolicy (SslSetSslPolicy _ _ _) = True"
| "is_SetSslPolicy (HttpsSetSslPolicy _ _ _) = True"
| "is_SetSslPolicy _ = False"

fun is_SetProxyHeader :: "api_call \<Rightarrow> bool" where
  "is_SetProxyHeader (SslSetProxyHeader _ _ _) = True"
| "is_SetProxyHeader _ = False"

fun is_SetBackend :: "api_call \<Rightarrow> bool" where
  "is_SetBackend (SslSetBackendService _ _ _) = True"
| "is_SetBackend (HttpsSetUrlMap _ _ _) = True"
| "is_SetBackend _ = False"

fun is_SetSslCertificates :: "api_call \<Rightarrow> bool" where
  "is_SetSslCertificates (SslSetSslCertificates _ _ _) = True"
| "is_SetSslCertificates (HttpsSetSslCertificates _ _ _) = True"
| "is_SetSslCertificates _ = False"

fun is_mutation :: "api_call \<Rightarrow> bool" where
  "is_mutation (SslGet _ _) = False"
| "is_mutation (HttpsGet _ _) = False"
| "is_mutation (OperationWait _ _ _) = False"
| "is_mutation (SharedOperationWait _ _ _) = False"
| "is_mutation _ = True"

text \<open>The payloads of the insert requests of a trace.\<close>

fun ssl_inserted :: "api_call list \<Rightarrow> TargetSslProxy list" where
  "ssl_inserted [] = []"
| "ssl_inserted (SslInsert _ proxy # cs) = proxy # ssl_inserted cs"
| "ssl_inserted (_ # cs) = ssl_inserted cs"

fun https_inserted :: "api_call list \<Rightarrow> TargetHttpsProxy list" where
  "https_inserted [] = []"
| "https_inserted (HttpsInsert _ proxy # cs) = proxy # https_inserted cs"
| "https_inserted (_ # cs) = https_inserted cs"

text \<open>The requests issued between two worlds of one run.\<close>

definition issued :: "'r world \<Rightarrow> 'r world \<Rightarrow> api_call list" where
  "issued w w' = drop (length (trace w)) (trace w')"

text \<open>A later world of the same run: its trace starts with the earlier one.\<close>

definition extends :: "'r world \<Rightarrow> 'r world \<Rightarrow> bool" where
  "extends w w' = (take (length (trace w)) (trace w') = trace w)"

text \<open>
  Local state agrees with a remote object field for field: every key that read writes holds
  the object's value (the numeric identifier in decimal), and \<open>project\<close> the owning project.
\<close>

definition ssl_agrees :: "fields \<Rightarrow> string \<Rightarrow> TargetSslProxy \<Rightarrow> bool" where
  "ssl_agrees f pr p =
     (name f = Ssl_Name p \<and> description f = Ssl_Description p \<and>
      proxy_header f = Ssl_ProxyHeader p \<and> backend_service f = Ssl_Service p \<and>
      ssl_certificates f = Ssl_SslCertificates p \<and> ssl_policy f = Ssl_SslPolicy p \<and>
      project f = pr \<and> self_link f = Ssl_SelfLink p \<and> proxy_id f = FormatUint (Ssl_Id p))"

definition https_agrees :: "fields \<Rightarrow> string \<Rightarrow> TargetHttpsProxy \<Rightarrow> bool" where
  "https_agrees f pr p =
     (ssl_certificates f = Https_SslCertificates p \<and> proxy_id f = FormatUint (Https_Id p) \<and>
      self_link f = Https_SelfLink p \<and> description f = Https_Description p \<and>
      url_map f = Https_UrlMap p \<and> name f = Https_Name p \<and> project f = pr \<and>
      ssl_policy f = Https_SslPolicy p)"

text \<open>Local state is in sync: the object the provider holds under the local identity agrees.\<close>

definition ssl_in_sync :: "('r, 'fv) Config \<Rightarrow> ResourceData \<Rightarrow> 'r world \<Rightarrow> bool" where
  "ssl_in_sync cfg d w =
     (case ssl_Get (TargetSslProxies cfg) (Get project d) (rd_id d) (remote w) of
        Inr p \<Rightarrow> ssl_agrees (rd_values d) (Get project d) p
      | Inl e \<Rightarrow> False)"

definition https_in_sync :: "('r, 'fv) Config \<Rightarrow> ResourceData \<Rightarrow> 'r world \<Rightarrow> bool" where
  "https_in_sync cfg d w =
     (case https_Get (TargetHttpsProxies cfg) (Get project d) (rd_id d) (remote w) of
        Inr p \<Rightarrow> https_agrees (rd_values d) (Get project d) p
      | Inl e \<Rightarrow> False)"

text \<open>The request bodies create builds from a declaration and the expanded certificates.\<close>

definition ssl_payload :: "ResourceData \<Rightarrow> string list \<Rightarrow> TargetSslProxy" where
  "ssl_payload d certs =
     \<lparr>Ssl_Name = Get name d, Ssl_Service = Get backend_service d,
      Ssl_ProxyHeader = Get proxy_header d, Ssl_Description = Get description d,
      Ssl_SslCertificates = certs, Ssl_SslPolicy = [], Ssl_Id = 0, Ssl_SelfLink = []\<rparr>"

definition https_payload :: "ResourceData \<Rightarrow> string list \<Rightarrow> TargetHttpsProxy" where
  "https_payload d certs =
     \<lparr>Https_Name = Get name d, Https_UrlMap = Get url_map d,
      Https_Description = Get description d, Https_SslCertificates = certs,
      Https_SslPolicy = [], Https_Id = 0, Https_SelfLink = []\<rparr>"

text \<open>
  The link create sends in the attach request: the relative link of whatever the policy
  parser returned, called on the local state that already carries the new identity.
\<close>

definition attach_link :: "('r, 'fv) Config \<Rightarrow> ResourceData \<Rightarrow> string" where
  "attach_link cfg d =
     RelativeLink cfg (fst (ParseSslPolicyFieldValue cfg (Get ssl_policy d) (SetId (Get name d) d)))"

text \<open>The canonical form of the declared certificate list: each reference parsed, in order.\<close>

definition canonical_certificates :: "('r, 'fv) Config \<Rightarrow> ResourceData \<Rightarrow> string list" where
  "canonical_certificates cfg d =
     map (\<lambda>c. RelativeLink cfg (fst (ParseSslCertificateFieldValue cfg c d)))
       (Get ssl_certificates d)"

section \<open>A small provider to run the resources on\<close>

text \<open>
  An in-memory provider holding at most one proxy of each kind, with a project resolver that
  reads the \<open>project\<close> key and parsers that refuse an empty reference or one with a space.
  The theorems below hold for every configuration; this one evaluates them on concrete runs.
\<close>

record provider =
  stored_ssl :: "TargetSslProxy option"
  stored_https :: "TargetHttpsProxy option"

definition demo_getProject :: "ResourceData \<Rightarrow> error + string" where
  "demo_getProject d =
     (if Get project d = [] then Inl (Failure ''project: required field is not set'')
      else Inr (Get project d))"

definition demo_parse :: "string \<Rightarrow> string \<Rightarrow> ResourceData \<Rightarrow> string \<times> error option" where
  "demo_parse kind s d =
     (if s = [] \<or> CHR '' '' \<in> set s then ([], Some (Failure ''invalid reference''))
      else (''projects/'' @ Get project d @ ''/global/'' @ kind @ ''/'' @ s, None))"

definition demo_ssl_update ::
  "string \<Rightarrow> (TargetSslProxy \<Rightarrow> TargetSslProxy) \<Rightarrow> provider \<Rightarrow> (error + operation) \<times> provider" where
  "demo_ssl_update i f r =
     (case stored_ssl r of
        None \<Rightarrow> (Inl NotFound, r)
      | Some p \<Rightarrow> if Ssl_Name p = i then (Inr (Operation ''update''), r\<lparr>stored_ssl := Some (f p)\<rparr>)
                  else (Inl NotFound, r))"

definition demo_https_update ::
  "string \<Rightarrow> (TargetHttpsProxy \<Rightarrow> TargetHttpsProxy) \<Rightarrow> provider \<Rightarrow> (error + operation) \<times> provider" where
  "demo_https_update i f r =
     (case stored_https r of
        None \<Rightarrow> (Inl NotFound, r)
      | Some p \<Rightarrow> if Https_Name p = i then (Inr (Operation ''update''), r\<lparr>stored_https := Some (f p)\<rparr>)
                  else (Inl NotFound, r))"

definition demo_ssl :: "provider TargetSslProxiesService" where
  "demo_ssl =
     \<lparr>ssl_Insert = (\<lambda>pr proxy r. case stored_ssl r of
          Some p \<Rightarrow> (Inl (Failure ''alreadyExists''), r)
        | None \<Rightarrow> (Inr (Operation ''insert''),
                   r\<lparr>stored_ssl := Some (proxy\<lparr>Ssl_Id := 42, Ssl_SelfLink := ''self/'' @ Ssl_Name proxy\<rparr>)\<rparr>)),
      ssl_Get = (\<lambda>pr i r. case stored_ssl r of
          None \<Rightarrow> Inl NotFound
        | Some p \<Rightarrow> if Ssl_Name p = i then Inr p else Inl NotFound),
      ssl_Delete = (\<lambda>pr i r. case stored_ssl r of
          None \<Rightarrow> (Inl NotFound, r)
        | Some p \<Rightarrow> if Ssl_Name p = i then (Inr (Operation ''delete''), r\<lparr>stored_ssl := None\<rparr>)
                    else (Inl NotFound, r)),
      ssl_SetProxyHeader = (\<lambda>pr i v r.
          if v = ''NONE'' \<or> v = ''PROXY_V1'' then demo_ssl_update i (\<lambda>p. p\<lparr>Ssl_ProxyHeader := v\<rparr>) r
          else (Inl (Failure ''invalid proxy header''), r)),
      ssl_SetBackendService = (\<lambda>pr i v r.
          if v = [] then (Inl (Failure ''invalid backend service''), r)
          else demo_ssl_update i (\<lambda>p. p\<lparr>Ssl_Service := v\<rparr>) r),
      ssl_SetSslCertificates = (\<lambda>pr i v r.
          if v = [] then (Inl (Failure ''no certificate''), r)
          else demo_ssl_update i (\<lambda>p. p\<lparr>Ssl_SslCertificates := v\<rparr>) r),
      ssl_SetSslPolicy = (\<lambda>pr i v r. demo_ssl_update i (\<lambda>p. p\<lparr>Ssl_SslPolicy := v\<rparr>) r)\<rparr>"

definition demo_https :: "provider TargetHttpsProxiesService" where
  "demo_https =
     \<lparr>https_Insert = (\<lambda>pr proxy r. case stored_https r of
          Some p \<Rightarrow> (Inl (Failure ''alreadyExists''), r)
        | None \<Rightarrow> (Inr (Operation ''insert''),
                   r\<lparr>stored_https := Some (proxy\<lparr>Https_Id := 42, Https_SelfLink := ''self/'' @ Https_Name proxy\<rparr>)\<rparr>)),
      https_Get = (\<lambda>pr i r. case stored_https r of
          None \<Rightarrow> Inl NotFound
        | Some p \<Rightarrow> if Https_Name p = i then Inr p else Inl NotFound),
      https_Delete = (\<lambda>pr i r. case stored_https r of
          None \<Rightarrow> (Inl NotFound, r)
        | Some p \<Rightarrow> if Https_Name p = i then (Inr (Operation ''delete''), r\<lparr>stored_https := None\<rparr>)
                    else (Inl NotFound, r)),
      https_SetUrlMap = (\<lambda>pr i v r.
          if v = [] then (Inl (Failure ''invalid url map''), r)
          else demo_https_update i (\<lambda>p. p\<lparr>Https_UrlMap := v\<rparr>) r),
      https_SetSslCertificates = (\<lambda>pr i v r.
          if v = [] then (Inl (Failure ''no certificate''), r)
          else demo_https_update i (\<lambda>p. p\<lparr>Https_SslCertificates := v\<rparr>) r),
      https_SetSslPolicy = (\<lambda>pr i v r. demo_https_update i (\<lambda>p. p\<lparr>Https_SslPolicy := v\<rparr>) r)\<rparr>"

definition demo_cfg :: "(provider, string) Config" where
  "demo_cfg =
     \<lparr>getProject = demo_getProject,
      ParseSslCertificateFieldValue = demo_parse ''sslCertificates'',
      ParseSslPolicyFieldValue = demo_parse ''sslPolicies'',
      RelativeLink = (\<lambda>fv. fv),
      computeOperationWait = (\<lambda>op pr activity r. (None, r)),
      computeSharedOperationWait = (\<lambda>op pr activity r. (None, r)),
      TargetSslProxies = demo_ssl,
      TargetHttpsProxies = demo_https\<rparr>"

text \<open>The same provider with operations that never complete.\<close>

definition stuck_cfg :: "(provider, string) Config" where
  "stuck_cfg = demo_cfg\<lparr>computeOperationWait := (\<lambda>op pr activity r. (Some (Failure ''timeout''), r)),
     computeSharedOperationWait := (\<lambda>op pr activity r. (Some (Failure ''timeout''), r))\<rparr>"

definition no_fields :: fields where
  "no_fields = \<lparr>name = [], backend_service = [], url_map = [], ssl_certificates = [],
     description = [], proxy_header = [], ssl_policy = [], project = [], proxy_id = [],
     self_link = []\<rparr>"

text \<open>A new declaration: nothing known yet, no identity.\<close>

definition declare_new :: "fields \<Rightarrow> ResourceData" where
  "declare_new f = \<lparr>rd_id = [], rd_state = no_fields, rd_values = f, rd_partial = False,
     rd_partial_keys = []\<rparr>"

definition empty_world :: "provider world" where
  "empty_world = \<lparr>remote = \<lparr>stored_ssl = None, stored_https = None\<rparr>, trace = []\<rparr>"

definition ssl_decl :: fields where
  "ssl_decl = no_fields\<lparr>name := ''px'', backend_service := ''be'', ssl_certificates := [''c1''],
     proxy_header := ''NONE'', project := ''p''\<rparr>"

definition https_decl :: fields where
  "https_decl = no_fields\<lparr>name := ''px'', url_map := ''um'', ssl_certificates := [''c1'', ''c2''],
     project := ''p''\<rparr>"

text \<open>A proxy of each kind as the provider stores it, and the local state of a resource
  that was created from the declaration and has not changed since.\<close>

definition ssl_stored :: TargetSslProxy where
  "ssl_stored = \<lparr>Ssl_Name = ''px'', Ssl_Service = ''be'', Ssl_ProxyHeader = ''NONE'',
     Ssl_Description = [], Ssl_SslCertificates = [''projects/p/global/sslCertificates/c1''],
     Ssl_SslPolicy = [], Ssl_Id = 42, Ssl_SelfLink = ''self/px''\<rparr>"

definition https_stored :: TargetHttpsProxy where
  "https_stored = \<lparr>Https_Name = ''px'', Https_UrlMap = ''um'', Https_Description = [],
     Https_SslCertificates = [''projects/p/global/sslCertificates/c1'',
       ''projects/p/global/sslCertificates/c2''],
     Https_SslPolicy = [], Https_Id = 42, Https_SelfLink = ''self/px''\<rparr>"

definition stored_world :: "provider world" where
  "stored_world = \<lparr>remote = \<lparr>stored_ssl = Some ssl_stored, stored_https = Some https_stored\<rparr>,
     trace = []\<rparr>"

definition known :: "fields \<Rightarrow> ResourceData" where
  "known f = \<lparr>rd_id = name f, rd_state = f, rd_values = f, rd_partial = False,
     rd_partial_keys = []\<rparr>"

definition changed :: "fields \<Rightarrow> fields \<Rightarrow> ResourceData" where
  "changed f g = \<lparr>rd_id = name f, rd_state = f, rd_values = g, rd_partial = False,
     rd_partial_keys = []\<rparr>"

section \<open>The field groups of update, in order\<close>

fun run_all :: "('r, unit) action list \<Rightarrow> ('r, unit) action" where
  "run_all [] = succeed ()"
| "run_all (b # bs) = and_then b (\<lambda>_. run_all bs)"

definition ssl_update_groups :: "('r, 'fv) Config \<Rightarrow> string \<Rightarrow> ('r, unit) action list" where
  "ssl_update_groups cfg pr =
     [ssl_update_proxy_header cfg pr, ssl_update_backend_service cfg pr,
      ssl_update_ssl_certificates cfg pr, ssl_update_ssl_policy cfg pr]"

definition https_update_groups :: "('r, 'fv) Config \<Rightarrow> string \<Rightarrow> ('r, unit) action list" where
  "https_update_groups cfg pr =
     [https_update_url_map cfg pr, https_update_ssl_certificates cfg pr,
      https_update_ssl_policy cfg pr]"

section \<open>Running the sequencing combinators\<close>

lemmas action_defs = succeed_def fail_with_def and_then_def on_error_def with_d_def lift_def
  modify_def request_def fetch_def wait_def handle_def

lemmas call_defs = TargetSslProxies_Insert_def TargetSslProxies_Get_def TargetSslProxies_Delete_def
  TargetSslProxies_SetProxyHeader_def TargetSslProxies_SetBackendService_def
  TargetSslProxies_SetSslCertificates_def TargetSslProxies_SetSslPolicy_def
  TargetHttpsProxies_Insert_def TargetHttpsProxies_Get_def TargetHttpsProxies_Delete_def
  TargetHttpsProxies_SetUrlMap_def TargetHttpsProxies_SetSslCertificates_def
  TargetHttpsProxies_SetSslPolicy_def OperationWait_call_def SharedOperationWait_call_def

lemmas eval_defs = resourceComputeTargetSslProxyCreate_def resourceComputeTargetSslProxyRead_def
  resourceComputeTargetSslProxyUpdate_def resourceComputeTargetSslProxyDelete_def
  resourceComputeTargetHttpsProxyCreate_def resourceComputeTargetHttpsProxyRead_def
  resourceComputeTargetHttpsProxyUpdate_def resourceComputeTargetHttpsProxyDelete_def
  ssl_create_ssl_policy_def https_create_ssl_policy_def
  ssl_update_proxy_header_def ssl_update_backend_service_def ssl_update_ssl_certificates_def
  ssl_update_ssl_policy_def https_update_url_map_def https_update_ssl_certificates_def
  https_update_ssl_policy_def expandSslCertificates_def handleNotFoundError_def
  Get_def GetOk_def HasChange_def SetId_def Set_def Partial_def SetPartial_def Let_def
  issued_def ssl_payload_def https_payload_def attach_link_def

lemmas demo_defs = demo_cfg_def stuck_cfg_def demo_ssl_def demo_https_def demo_getProject_def
  demo_parse_def demo_ssl_update_def demo_https_update_def declare_new_def empty_world_def
  ssl_decl_def https_decl_def no_fields_def ssl_stored_def https_stored_def stored_world_def
  known_def changed_def

lemma issued_append: "trace w' = trace w @ xs \<Longrightarrow> issued w w' = xs"
  by (simp add: issued_def)

lemma expand_loop_Inr:
  "expandSslCertificates_loop cfg d xs acc = Inr certs \<Longrightarrow>
   certs = acc @ map (\<lambda>c. RelativeLink cfg (fst (ParseSslCertificateFieldValue cfg c d))) xs"
proof (induction xs arbitrary: acc)
  case Nil
  then show ?case by simp
next
  case (Cons x xs)
  obtain fv err where p: "ParseSslCertificateFieldValue cfg x d = (fv, err)"
    by (cases "ParseSslCertificateFieldValue cfg x d")
  show ?case
  proof (cases err)
    case None
    with Cons.prems p
    have "expandSslCertificates_loop cfg d xs (acc @ [RelativeLink cfg fv]) = Inr certs"
      by simp
    from Cons.IH[OF this] p show ?thesis by simp
  next
    case (Some e)
    with Cons.prems p show ?thesis by simp
  qed
qed

lemma expand_Inr:
  "expandSslCertificates cfg d = Inr certs \<Longrightarrow> certs = canonical_certificates cfg d"
  using expand_loop_Inr[of cfg d "Get ssl_certificates d" "[]" certs]
  by (simp add: expandSslCertificates_def canonical_certificates_def)

lemma ssl_read_run:
  "resourceComputeTargetSslProxyRead cfg (d, w) =
    (case getProject cfg d of
       Inl e \<Rightarrow> (Inl e, (d, w))
     | Inr pr \<Rightarrow>
        (case ssl_Get (TargetSslProxies cfg) pr (rd_id d) (remote w) of
           Inl e \<Rightarrow>
             (if e = NotFound
              then (Inr (), (d\<lparr>rd_id := []\<rparr>,
                     \<lparr>remote = remote w, trace = trace w @ [SslGet pr (rd_id d)]\<rparr>))
              else (Inl (Errorf (''Error reading Target SSL Proxy '' @ quoted (Get name d) @ '': '') e),
                    (d, \<lparr>remote = remote w, trace = trace w @ [SslGet pr (rd_id d)]\<rparr>)))
         | Inr p \<Rightarrow>
             (Inr (), (d\<lparr>rd_values := (rd_values d)\<lparr>name := Ssl_Name p,
                         description := Ssl_Description p, proxy_header := Ssl_ProxyHeader p,
                         backend_service := Ssl_Service p,
                         ssl_certificates := Ssl_SslCertificates p, ssl_policy := Ssl_SslPolicy p,
                         project := pr, self_link := Ssl_SelfLink p,
                         proxy_id := FormatUint (Ssl_Id p)\<rparr>\<rparr>,
                   \<lparr>remote = remote w, trace = trace w @ [SslGet pr (rd_id d)]\<rparr>))))"
  by (simp add: resourceComputeTargetSslProxyRead_def action_defs call_defs
      handleNotFoundError_def SetId_def Set_def split: sum.splits)

lemma https_read_run:
  "resourceComputeTargetHttpsProxyRead cfg (d, w) =
    (case getProject cfg d of
       Inl e \<Rightarrow> (Inl e, (d, w))
     | Inr pr \<Rightarrow>
        (case https_Get (TargetHttpsProxies cfg) pr (rd_id d) (remote w) of
           Inl e \<Rightarrow>
             (if e = NotFound
              then (Inr (), (d\<lparr>rd_id := []\<rparr>,
                     \<lparr>remote = remote w, trace = trace w @ [HttpsGet pr (rd_id d)]\<rparr>))
              else (Inl (Errorf (''Error reading Target HTTPS proxy '' @ quoted (Get name d) @ '': '') e),
                    (d, \<lparr>remote = remote w, trace = trace w @ [HttpsGet pr (rd_id d)]\<rparr>)))
         | Inr p \<Rightarrow>
             (Inr (), (d\<lparr>rd_values := (rd_values d)\<lparr>ssl_certificates := Https_SslCertificates p,
                         proxy_id := FormatUint (Https_Id p), self_link := Https_SelfLink p,
                         description := Https_Description p, url_map := Https_UrlMap p,
                         name := Https_Name p, project := pr,
                         ssl_policy := Https_SslPolicy p\<rparr>\<rparr>,
                   \<lparr>remote = remote w, trace = trace w @ [HttpsGet pr (rd_id d)]\<rparr>))))"
  by (simp add: resourceComputeTargetHttpsProxyRead_def action_defs call_defs
      handleNotFoundError_def SetId_def Set_def split: sum.splits)

text \<open>
  C3. A read whose fetch reports the object absent clears the local identity and returns no
  error; a read whose fetch succeeds returns no error and writes every field of the remote
  object into local state, the numeric identifier in decimal and the self link among them.
  The identity and the last-known values stay as they were, and the only request is the fetch.
\<close>

theorem read_reconciles:
  "(getProject cfg d = Inr pr \<and> ssl_Get (TargetSslProxies cfg) pr (rd_id d) (remote w) = Inl NotFound \<longrightarrow>
      resourceComputeTargetSslProxyRead cfg (d, w) =
        (Inr (), (d\<lparr>rd_id := []\<rparr>, \<lparr>remote = remote w, trace = trace w @ [SslGet pr (rd_id d)]\<rparr>))) \<and>
   (getProject cfg d = Inr pr \<and> ssl_Get (TargetSslProxies cfg) pr (rd_id d) (remote w) = Inr p \<longrightarrow>
      resourceComputeTargetSslProxyRead cfg (d, w) =
        (Inr (), (d\<lparr>rd_values := (rd_values d)\<lparr>name := Ssl_Name p,
                         description := Ssl_Description p, proxy_header := Ssl_ProxyHeader p,
                         backend_service := Ssl_Service p,
                         ssl_certificates := Ssl_SslCertificates p, ssl_policy := Ssl_SslPolicy p,
                         project := pr, self_link := Ssl_SelfLink p,
                         proxy_id := FormatUint (Ssl_Id p)\<rparr>\<rparr>,
                   \<lparr>remote = remote w, trace = trace w @ [SslGet pr (rd_id d)]\<rparr>))) \<and>
   (getProject cfg d = Inr pr \<and> https_Get (TargetHttpsProxies cfg) pr (rd_id d) (remote w) = Inl NotFound \<longrightarrow>
      resourceComputeTargetHttpsProxyRead cfg (d, w) =
        (Inr (), (d\<lparr>rd_id := []\<rparr>, \<lparr>remote = remote w, trace = trace w @ [HttpsGet pr (rd_id d)]\<rparr>))) \<and>
   (getProject cfg d = Inr pr \<and> https_Get (TargetHttpsProxies cfg) pr (rd_id d) (remote w) = Inr q \<longrightarrow>
      resourceComputeTargetHttpsProxyRead cfg (d, w) =
        (Inr (), (d\<lparr>rd_values := (rd_values d)\<lparr>ssl_certificates := Https_SslCertificates q,
                         proxy_id := FormatUint (Https_Id q), self_link := Https_SelfLink q,
                         description := Https_Description q, url_map := Https_UrlMap q,
                         name := Https_Name q, project := pr,
                         ssl_policy := Https_SslPolicy q\<rparr>\<rparr>,
                   \<lparr>remote = remote w, trace = trace w @ [HttpsGet pr (rd_id d)]\<rparr>)))"
  by (simp add: ssl_read_run https_read_run)

section \<open>Evaluation on the small provider\<close>

lemma decimal_42: "FormatUint 42 = ''42''"
  by (simp add: FormatUint_def decimal.simps[of 42] decimal.simps[of 4] digit_char_def)

theorem read_reconciles_witness:
  "getProject demo_cfg (known ssl_decl) = Inr ''p'' \<and>
   ssl_Get (TargetSslProxies demo_cfg) ''p'' (rd_id (known ssl_decl)) (remote empty_world) = Inl NotFound \<and>
   resourceComputeTargetSslProxyRead demo_cfg (known ssl_decl, empty_world) =
     (Inr (), ((known ssl_decl)\<lparr>rd_id := []\<rparr>, \<lparr>remote = remote empty_world, trace = [SslGet ''p'' ''px'']\<rparr>)) \<and>
   ssl_Get (TargetSslProxies demo_cfg) ''p'' (rd_id (known ssl_decl)) (remote stored_world) = Inr ssl_stored \<and>
   Get proxy_id (fst (snd (resourceComputeTargetSslProxyRead demo_cfg (known ssl_decl, stored_world)))) = ''42'' \<and>
   Get self_link (fst (snd (resourceComputeTargetSslProxyRead demo_cfg (known ssl_decl, stored_world)))) = ''self/px'' \<and>
   getProject demo_cfg (known https_decl) = Inr ''p'' \<and>
   https_Get (TargetHttpsProxies demo_cfg) ''p'' (rd_id (known https_decl)) (remote empty_world) = Inl NotFound \<and>
   resourceComputeTargetHttpsProxyRead demo_cfg (known https_decl, empty_world) =
     (Inr (), ((known https_decl)\<lparr>rd_id := []\<rparr>, \<lparr>remote = remote empty_world, trace = [HttpsGet ''p'' ''px'']\<rparr>)) \<and>
   https_Get (TargetHttpsProxies demo_cfg) ''p'' (rd_id (known https_decl)) (remote stored_world) = Inr https_stored \<and>
   Get proxy_id (fst (snd (resourceComputeTargetHttpsProxyRead demo_cfg (known https_decl, stored_world)))) = ''42'' \<and>
   Get self_link (fst (snd (resourceComputeTargetHttpsProxyRead demo_cfg (known https_decl, stored_world)))) = ''self/px''"
proof -
  have p1: "getProject demo_cfg (known ssl_decl) = Inr ''p''"
    and p2: "getProject demo_cfg (known https_decl) = Inr ''p''"
    by (simp_all add: demo_defs Get_def)
  have a1: "ssl_Get (TargetSslProxies demo_cfg) ''p'' (rd_id (known ssl_decl)) (remote empty_world) = Inl NotFound"
    and a2: "ssl_Get (TargetSslProxies demo_cfg) ''p'' (rd_id (known ssl_decl)) (remote stored_world) = Inr ssl_stored"
    and a3: "https_Get (TargetHttpsProxies demo_cfg) ''p'' (rd_id (known https_decl)) (remote empty_world) = Inl NotFound"
    and a4: "https_Get (TargetHttpsProxies demo_cfg) ''p'' (rd_id (known https_decl)) (remote stored_world) = Inr https_stored"
    by (simp_all add: demo_defs)
  note r = read_reconciles[of demo_cfg _ "''p''"]
  have c1: "resourceComputeTargetSslProxyRead demo_cfg (known ssl_decl, empty_world) =
     (Inr (), ((known ssl_decl)\<lparr>rd_id := []\<rparr>, \<lparr>remote = remote empty_world, trace = [SslGet ''p'' ''px'']\<rparr>))"
    using r[of "known ssl_decl" empty_world] p1 a1 by (simp add: demo_defs)
  have c2: "Get proxy_id (fst (snd (resourceComputeTargetSslProxyRead demo_cfg (known ssl_decl, stored_world)))) = ''42''
     \<and> Get self_link (fst (snd (resourceComputeTargetSslProxyRead demo_cfg (known ssl_decl, stored_world)))) = ''self/px''"
    using r[of "known ssl_decl" stored_world ssl_stored] p1 a2 by (simp add: Get_def ssl_stored_def decimal_42)
  have c3: "resourceComputeTargetHttpsProxyRead demo_cfg (known https_decl, empty_world) =
     (Inr (), ((known https_decl)\<lparr>rd_id := []\<rparr>, \<lparr>remote = remote empty_world, trace = [HttpsGet ''p'' ''px'']\<rparr>))"
    using r[of "known https_decl" empty_world] p2 a3 by (simp add: demo_defs)
  have c4: "Get proxy_id (fst (snd (resourceComputeTargetHttpsProxyRead demo_cfg (known https_decl, stored_world)))) = ''42''
     \<and> Get self_link (fst (snd (resourceComputeTargetHttpsProxyRead demo_cfg (known https_decl, stored_world)))) = ''self/px''"
    using r[of "known https_decl" stored_world _ https_stored] p2 a4 by (simp add: Get_def https_stored_def decimal_42)
  from p1 p2 a1 a2 a3 a4 c1 c2 c3 c4 show ?thesis by simp
qed

section \<open>Delete\<close>

lemma ssl_delete_run:
  "resourceComputeTargetSslProxyDelete cfg (d, w) =
    (case getProject cfg d of
       Inl e \<Rightarrow> (Inl e, (d, w))
     | Inr pr \<Rightarrow>
        (case ssl_Delete (TargetSslProxies cfg) pr (rd_id d) (remote w) of
           (Inl e, r1) \<Rightarrow>
             (Inl (Errorf ''Error deleting TargetSslProxy: '' e),
              (d, \<lparr>remote = r1, trace = trace w @ [SslDelete pr (rd_id d)]\<rparr>))
         | (Inr op, r1) \<Rightarrow>
             (case computeOperationWait cfg op pr ''Deleting Target SSL Proxy'' r1 of
                (Some e, r2) \<Rightarrow>
                  (Inl e, (d, \<lparr>remote = r2, trace = trace w @ [SslDelete pr (rd_id d),
                     OperationWait op pr ''Deleting Target SSL Proxy'']\<rparr>))
              | (None, r2) \<Rightarrow>
                  (Inr (), (d\<lparr>rd_id := []\<rparr>, \<lparr>remote = r2, trace = trace w @ [SslDelete pr (rd_id d),
                     OperationWait op pr ''Deleting Target SSL Proxy'']\<rparr>)))))"
  by (simp add: resourceComputeTargetSslProxyDelete_def action_defs call_defs SetId_def
      split: sum.splits prod.splits option.splits)

lemma https_delete_run:
  "resourceComputeTargetHttpsProxyDelete cfg (d, w) =
    (case getProject cfg d of
       Inl e \<Rightarrow> (Inl e, (d, w))
     | Inr pr \<Rightarrow>
        (case https_Delete (TargetHttpsProxies cfg) pr (rd_id d) (remote w) of
           (Inl e, r1) \<Rightarrow>
             (Inl (Errorf ''Error deleting TargetHttpsProxy: '' e),
              (d, \<lparr>remote = r1, trace = trace w @ [HttpsDelete pr (rd_id d)]\<rparr>))
         | (Inr op, r1) \<Rightarrow>
             (case computeOperationWait cfg op pr ''Deleting Target Https Proxy'' r1 of
                (Some e, r2) \<Rightarrow>
                  (Inl e, (d, \<lparr>remote = r2, trace = trace w @ [HttpsDelete pr (rd_id d),
                     OperationWait op pr ''Deleting Target Https Proxy'']\<rparr>))
              | (None, r2) \<Rightarrow>
                  (Inr (), (d\<lparr>rd_id := []\<rparr>, \<lparr>remote = r2, trace = trace w @ [HttpsDelete pr (rd_id d),
                     OperationWait op pr ''Deleting Target Https Proxy'']\<rparr>)))))"
  by (simp add: resourceComputeTargetHttpsProxyDelete_def action_defs call_defs SetId_def
      split: sum.splits prod.splits option.splits)

text \<open>
  C7. Delete issues the delete request, waits on the operation it returns and only then
  clears the local identity: when the request and the wait succeed the requests are exactly
  the delete and the wait, in that order, and the identity is empty afterwards. When the
  request fails, with "not found" or anything else, delete returns the error wrapped in its
  context string, sends nothing more and leaves the local state as it was, identity
  included; when the wait fails its error is returned as it is and the identity is kept.
\<close>

theorem delete_waits_then_clears:
  "(getProject cfg d = Inr pr \<and>
    ssl_Delete (TargetSslProxies cfg) pr (rd_id d) (remote w) = (Inr op, r1) \<and>
    computeOperationWait cfg op pr ''Deleting Target SSL Proxy'' r1 = (None, r2) \<longrightarrow>
      resourceComputeTargetSslProxyDelete cfg (d, w) =
        (Inr (), (d\<lparr>rd_id := []\<rparr>, \<lparr>remote = r2, trace = trace w @ [SslDelete pr (rd_id d),
           OperationWait op pr ''Deleting Target SSL Proxy'']\<rparr>))) \<and>
   (getProject cfg d = Inr pr \<and>
    ssl_Delete (TargetSslProxies cfg) pr (rd_id d) (remote w) = (Inl e, r1) \<longrightarrow>
      resourceComputeTargetSslProxyDelete cfg (d, w) =
        (Inl (Errorf ''Error deleting TargetSslProxy: '' e),
         (d, \<lparr>remote = r1, trace = trace w @ [SslDelete pr (rd_id d)]\<rparr>))) \<and>
   (getProject cfg d = Inr pr \<and>
    ssl_Delete (TargetSslProxies cfg) pr (rd_id d) (remote w) = (Inr op, r1) \<and>
    computeOperationWait cfg op pr ''Deleting Target SSL Proxy'' r1 = (Some e, r2) \<longrightarrow>
      resourceComputeTargetSslProxyDelete cfg (d, w) =
        (Inl e, (d, \<lparr>remote = r2, trace = trace w @ [SslDelete pr (rd_id d),
           OperationWait op pr ''Deleting Target SSL Proxy'']\<rparr>))) \<and>
   (getProject cfg d = Inr pr \<and>
    https_Delete (TargetHttpsProxies cfg) pr (rd_id d) (remote w) = (Inr op, r1) \<and>
    computeOperationWait cfg op pr ''Deleting Target Https Proxy'' r1 = (None, r2) \<longrightarrow>
      resourceComputeTargetHttpsProxyDelete cfg (d, w) =
        (Inr (), (d\<lparr>rd_id := []\<rparr>, \<lparr>remote = r2, trace = trace w @ [HttpsDelete pr (rd_id d),
           OperationWait op pr ''Deleting Target Https Proxy'']\<rparr>))) \<and>
   (getProject cfg d = Inr pr \<and>
    https_Delete (TargetHttpsProxies cfg) pr (rd_id d) (remote w) = (Inl e, r1) \<longrightarrow>
      resourceComputeTargetHttpsProxyDelete cfg (d, w) =
        (Inl (Errorf ''Error deleting TargetHttpsProxy: '' e),
         (d, \<lparr>remote = r1, trace = trace w @ [HttpsDelete pr (rd_id d)]\<rparr>))) \<and>
   (getProject cfg d = Inr pr \<and>
    https_Delete (TargetHttpsProxies cfg) pr (rd_id d) (remote w) = (Inr op, r1) \<and>
    computeOperationWait cfg op pr ''Deleting Target Https Proxy'' r1 = (Some e, r2) \<longrightarrow>
      resourceComputeTargetHttpsProxyDelete cfg (d, w) =
        (Inl e, (d, \<lparr>remote = r2, trace = trace w @ [HttpsDelete pr (rd_id d),
           OperationWait op pr ''Deleting Target Https Proxy'']\<rparr>)))"
  by (simp add: ssl_delete_run https_delete_run)

theorem delete_waits_then_clears_witness:
  "resourceComputeTargetSslProxyDelete demo_cfg (known ssl_decl, stored_world) =
     (Inr (), ((known ssl_decl)\<lparr>rd_id := []\<rparr>,
        \<lparr>remote = \<lparr>stored_ssl = None, stored_https = Some https_stored\<rparr>,
         trace = [SslDelete ''p'' ''px'', OperationWait (Operation ''delete'') ''p''
           ''Deleting Target SSL Proxy'']\<rparr>)) \<and>
   resourceComputeTargetSslProxyDelete demo_cfg (known ssl_decl, empty_world) =
     (Inl (Errorf ''Error deleting TargetSslProxy: '' NotFound),
      (known ssl_decl, \<lparr>remote = remote empty_world, trace = [SslDelete ''p'' ''px'']\<rparr>)) \<and>
   resourceComputeTargetSslProxyDelete stuck_cfg (known ssl_decl, stored_world) =
     (Inl (Failure ''timeout''), (known ssl_decl,
        \<lparr>remote = \<lparr>stored_ssl = None, stored_https = Some https_stored\<rparr>,
         trace = [SslDelete ''p'' ''px'', OperationWait (Operation ''delete'') ''p''
           ''Deleting Target SSL Proxy'']\<rparr>)) \<and>
   resourceComputeTargetHttpsProxyDelete demo_cfg (known https_decl, stored_world) =
     (Inr (), ((known https_decl)\<lparr>rd_id := []\<rparr>,
        \<lparr>remote = \<lparr>stored_ssl = Some ssl_stored, stored_https = None\<rparr>,
         trace = [HttpsDelete ''p'' ''px'', OperationWait (Operation ''delete'') ''p''
           ''Deleting Target Https Proxy'']\<rparr>)) \<and>
   resourceComputeTargetHttpsProxyDelete demo_cfg (known https_decl, empty_world) =
     (Inl (Errorf ''Error deleting TargetHttpsProxy: '' NotFound),
      (known https_decl, \<lparr>remote = remote empty_world, trace = [HttpsDelete ''p'' ''px'']\<rparr>)) \<and>
   resourceComputeTargetHttpsProxyDelete stuck_cfg (known https_decl, stored_world) =
     (Inl (Failure ''timeout''), (known https_decl,
        \<lparr>remote = \<lparr>stored_ssl = Some ssl_stored, stored_https = None\<rparr>,
         trace = [HttpsDelete ''p'' ''px'', OperationWait (Operation ''delete'') ''p''
           ''Deleting Target Https Proxy'']\<rparr>))"
proof -
  have p: "getProject demo_cfg (known ssl_decl) = Inr ''p''"
    "getProject demo_cfg (known https_decl) = Inr ''p''"
    "getProject stuck_cfg (known ssl_decl) = Inr ''p''"
    "getProject stuck_cfg (known https_decl) = Inr ''p''"
    by (simp_all add: demo_defs Get_def)
  have rq: "ssl_Delete (TargetSslProxies demo_cfg) ''p'' ''px'' (remote stored_world)
       = (Inr (Operation ''delete''), \<lparr>stored_ssl = None, stored_https = Some https_stored\<rparr>)"
    "ssl_Delete (TargetSslProxies demo_cfg) ''p'' ''px'' (remote empty_world)
       = (Inl NotFound, remote empty_world)"
    "ssl_Delete (TargetSslProxies stuck_cfg) ''p'' ''px'' (remote stored_world)
       = (Inr (Operation ''delete''), \<lparr>stored_ssl = None, stored_https = Some https_stored\<rparr>)"
    "https_Delete (TargetHttpsProxies demo_cfg) ''p'' ''px'' (remote stored_world)
       = (Inr (Operation ''delete''), \<lparr>stored_ssl = Some ssl_stored, stored_https = None\<rparr>)"
    "https_Delete (TargetHttpsProxies demo_cfg) ''p'' ''px'' (remote empty_world)
       = (Inl NotFound, remote empty_world)"
    "https_Delete (TargetHttpsProxies stuck_cfg) ''p'' ''px'' (remote stored_world)
       = (Inr (Operation ''delete''), \<lparr>stored_ssl = Some ssl_stored, stored_https = None\<rparr>)"
    by (simp_all add: demo_defs)
  have wt: "computeOperationWait demo_cfg op pr a r = (None, r)"
    "computeOperationWait stuck_cfg op pr a r = (Some (Failure ''timeout''), r)" for op pr a r
    by (simp_all add: demo_defs)
  have i: "rd_id (known ssl_decl) = ''px''" "rd_id (known https_decl) = ''px''"
    "trace stored_world = []" "trace empty_world = []"
    by (simp_all add: demo_defs)
  note t = delete_waits_then_clears
  show ?thesis
    using t[of demo_cfg "known ssl_decl" "''p''" stored_world "Operation ''delete''"
            "\<lparr>stored_ssl = None, stored_https = Some https_stored\<rparr>"
            "\<lparr>stored_ssl = None, stored_https = Some https_stored\<rparr>"]
          t[of demo_cfg "known ssl_decl" "''p''" empty_world _ "remote empty_world" _ NotFound]
          t[of stuck_cfg "known ssl_decl" "''p''" stored_world "Operation ''delete''"
            "\<lparr>stored_ssl = None, stored_https = Some https_stored\<rparr>"
            "\<lparr>stored_ssl = None, stored_https = Some https_stored\<rparr>" "Failure ''timeout''"]
          t[of demo_cfg "known https_decl" "''p''" stored_world "Operation ''delete''"
            "\<lparr>stored_ssl = Some ssl_stored, stored_https = None\<rparr>"
            "\<lparr>stored_ssl = Some ssl_stored, stored_https = None\<rparr>"]
          t[of demo_cfg "known https_decl" "''p''" empty_world _ "remote empty_world" _ NotFound]
          t[of stuck_cfg "known https_decl" "''p''" stored_world "Operation ''delete''"
            "\<lparr>stored_ssl = Some ssl_stored, stored_https = None\<rparr>"
            "\<lparr>stored_ssl = Some ssl_stored, stored_https = None\<rparr>" "Failure ''timeout''"]
    by (simp add: p rq wt i)
qed

section \<open>Reads of local state after an update of another part\<close>

lemma Get_frame [simp]:
  "Get key (d\<lparr>rd_id := i\<rparr>) = Get key d"
  "Get key (d\<lparr>rd_partial := b\<rparr>) = Get key d"
  "Get key (d\<lparr>rd_partial_keys := ks\<rparr>) = Get key d"
  by (simp_all add: Get_def)

lemma HasChange_frame [simp]:
  "HasChange key (d\<lparr>rd_id := i\<rparr>) = HasChange key d"
  "HasChange key (d\<lparr>rd_partial := b\<rparr>) = HasChange key d"
  "HasChange key (d\<lparr>rd_partial_keys := ks\<rparr>) = HasChange key d"
  by (simp_all add: HasChange_def)

section \<open>Create\<close>

lemma ssl_create_ssl_policy_run:
  "ssl_create_ssl_policy cfg pr nm (d, w) =
    (if Get ssl_policy d = [] then (Inr (), (d, w))
     else
      (case ssl_SetSslPolicy (TargetSslProxies cfg) pr nm
              (RelativeLink cfg (fst (ParseSslPolicyFieldValue cfg (Get ssl_policy d) d)))
              (remote w) of
         (Inl e, r1) \<Rightarrow>
           (Inl (Wrapf ''Error setting SSL Policy: '' e),
            (d, \<lparr>remote = r1, trace = trace w @ [SslSetSslPolicy pr nm
               (RelativeLink cfg (fst (ParseSslPolicyFieldValue cfg (Get ssl_policy d) d)))]\<rparr>))
       | (Inr op, r1) \<Rightarrow>
           (case computeSharedOperationWait cfg op pr ''Adding Target SSL Proxy SSL Policy'' r1 of
              (res, r2) \<Rightarrow>
               ((case res of None \<Rightarrow> Inr () | Some e \<Rightarrow> Inl e),
                (d, \<lparr>remote = r2, trace = trace w @ [SslSetSslPolicy pr nm
                   (RelativeLink cfg (fst (ParseSslPolicyFieldValue cfg (Get ssl_policy d) d))),
                   SharedOperationWait op pr ''Adding Target SSL Proxy SSL Policy'']\<rparr>)))))"
  by (simp add: ssl_create_ssl_policy_def action_defs call_defs GetOk_def Get_def
      split: sum.splits prod.splits option.splits)

lemma https_create_ssl_policy_run:
  "https_create_ssl_policy cfg pr nm (d, w) =
    (if Get ssl_policy d = [] then (Inr (), (d, w))
     else
      (case https_SetSslPolicy (TargetHttpsProxies cfg) pr nm
              (RelativeLink cfg (fst (ParseSslPolicyFieldValue cfg (Get ssl_policy d) d)))
              (remote w) of
         (Inl e, r1) \<Rightarrow>
           (Inl (Wrapf ''Error setting Target HTTPS Proxy SSL Policy: '' e),
            (d, \<lparr>remote = r1, trace = trace w @ [HttpsSetSslPolicy pr nm
               (RelativeLink cfg (fst (ParseSslPolicyFieldValue cfg (Get ssl_policy d) d)))]\<rparr>))
       | (Inr op, r1) \<Rightarrow>
           (case computeSharedOperationWait cfg op pr ''Adding Target HTTPS Proxy SSL Policy'' r1 of
              (res, r2) \<Rightarrow>
               ((case res of None \<Rightarrow> Inr () | Some e \<Rightarrow> Inl e),
                (d, \<lparr>remote = r2, trace = trace w @ [HttpsSetSslPolicy pr nm
                   (RelativeLink cfg (fst (ParseSslPolicyFieldValue cfg (Get ssl_policy d) d))),
                   SharedOperationWait op pr ''Adding Target HTTPS Proxy SSL Policy'']\<rparr>)))))"
  by (simp add: https_create_ssl_policy_def action_defs call_defs GetOk_def Get_def
      split: sum.splits prod.splits option.splits)

lemma ssl_create_run:
  "resourceComputeTargetSslProxyCreate cfg (d, w) =
    (case getProject cfg d of
       Inl e \<Rightarrow> (Inl e, (d, w))
     | Inr pr \<Rightarrow>
      (case expandSslCertificates cfg d of
         Inl e \<Rightarrow> (Inl e, (d, w))
       | Inr certs \<Rightarrow>
        (case ssl_Insert (TargetSslProxies cfg) pr (ssl_payload d certs) (remote w) of
           (Inl e, r1) \<Rightarrow>
             (Inl (Errorf ''Error creating TargetSslProxy: '' e),
              (d, \<lparr>remote = r1, trace = trace w @ [SslInsert pr (ssl_payload d certs)]\<rparr>))
         | (Inr op, r1) \<Rightarrow>
          (case computeOperationWait cfg op pr ''Creating Target Ssl Proxy'' r1 of
             (Some e, r2) \<Rightarrow>
               (Inl e, (d, \<lparr>remote = r2, trace = trace w @ [SslInsert pr (ssl_payload d certs),
                  OperationWait op pr ''Creating Target Ssl Proxy'']\<rparr>))
           | (None, r2) \<Rightarrow>
               and_then (ssl_create_ssl_policy cfg pr (Get name d))
                 (\<lambda>_. resourceComputeTargetSslProxyRead cfg)
                 (d\<lparr>rd_id := Get name d\<rparr>,
                  \<lparr>remote = r2, trace = trace w @ [SslInsert pr (ssl_payload d certs),
                     OperationWait op pr ''Creating Target Ssl Proxy'']\<rparr>)))))"
  by (simp add: resourceComputeTargetSslProxyCreate_def action_defs call_defs SetId_def
      Get_def ssl_payload_def Let_def
      split: sum.splits prod.splits option.splits)

lemma https_create_run:
  "resourceComputeTargetHttpsProxyCreate cfg (d, w) =
    (case getProject cfg d of
       Inl e \<Rightarrow> (Inl e, (d, w))
     | Inr pr \<Rightarrow>
      (case expandSslCertificates cfg d of
         Inl e \<Rightarrow> (Inl e, (d, w))
       | Inr certs \<Rightarrow>
        (case https_Insert (TargetHttpsProxies cfg) pr (https_payload d certs) (remote w) of
           (Inl e, r1) \<Rightarrow>
             (Inl (Errorf ''Error creating TargetHttpsProxy: '' e),
              (d, \<lparr>remote = r1, trace = trace w @ [HttpsInsert pr (https_payload d certs)]\<rparr>))
         | (Inr op, r1) \<Rightarrow>
          (case computeOperationWait cfg op pr ''Creating Target Https Proxy'' r1 of
             (Some e, r2) \<Rightarrow>
               (Inl e, (d, \<lparr>remote = r2, trace = trace w @ [HttpsInsert pr (https_payload d certs),
                  OperationWait op pr ''Creating Target Https Proxy'']\<rparr>))
           | (None, r2) \<Rightarrow>
               and_then (https_create_ssl_policy cfg pr (Get name d))
                 (\<lambda>_. resourceComputeTargetHttpsProxyRead cfg)
                 (d\<lparr>rd_id := Get name d\<rparr>,
                  \<lparr>remote = r2, trace = trace w @ [HttpsInsert pr (https_payload d certs),
                     OperationWait op pr ''Creating Target Https Proxy'']\<rparr>)))))"
  by (simp add: resourceComputeTargetHttpsProxyCreate_def action_defs call_defs SetId_def
      Get_def GetOk_def https_payload_def Let_def
      split: sum.splits prod.splits option.splits)

lemma ssl_read_trace:
  "resourceComputeTargetSslProxyRead cfg (d, w) = (res, (d', w')) \<Longrightarrow>
   remote w' = remote w \<and>
   (trace w' = trace w \<or> (\<exists>pr. trace w' = trace w @ [SslGet pr (rd_id d)]))"
  by (auto simp: ssl_read_run split: sum.splits if_splits)

lemma https_read_trace:
  "resourceComputeTargetHttpsProxyRead cfg (d, w) = (res, (d', w')) \<Longrightarrow>
   remote w' = remote w \<and>
   (trace w' = trace w \<or> (\<exists>pr. trace w' = trace w @ [HttpsGet pr (rd_id d)]))"
  by (auto simp: https_read_run split: sum.splits if_splits)

lemma ssl_create_no_policy:
  assumes "Get ssl_policy d = []"
    and "resourceComputeTargetSslProxyCreate cfg (d, w) = (res, (d', w'))"
  shows "filter is_SetSslPolicy (issued w w') = []"
  using assms
  by (auto simp: ssl_create_run ssl_create_ssl_policy_run and_then_def issued_def attach_link_def SetId_def
      split: sum.splits prod.splits option.splits if_splits dest!: ssl_read_trace)

lemma ssl_create_at_most_one:
  assumes "resourceComputeTargetSslProxyCreate cfg (d, w) = (res, (d', w'))"
  shows "length (filter is_SetSslPolicy (issued w w')) \<le> 1"
  using assms
  by (auto simp: ssl_create_run ssl_create_ssl_policy_run and_then_def issued_def attach_link_def SetId_def
      split: sum.splits prod.splits option.splits if_splits dest!: ssl_read_trace)

lemma ssl_create_policy:
  assumes "Get ssl_policy d \<noteq> []"
    and "getProject cfg d = Inr pr"
    and "expandSslCertificates cfg d = Inr certs"
    and "ssl_Insert (TargetSslProxies cfg) pr (ssl_payload d certs) (remote w) = (Inr op, r1)"
    and "computeOperationWait cfg op pr ''Creating Target Ssl Proxy'' r1 = (None, r2)"
    and "resourceComputeTargetSslProxyCreate cfg (d, w) = (res, (d', w'))"
  shows "\<exists>rest. issued w w' =
            [SslInsert pr (ssl_payload d certs), OperationWait op pr ''Creating Target Ssl Proxy'',
             SslSetSslPolicy pr (Get name d) (attach_link cfg d)] @ rest \<and>
          filter is_SetSslPolicy rest = [] \<and>
          (case ssl_SetSslPolicy (TargetSslProxies cfg) pr (Get name d) (attach_link cfg d) r2 of
             (Inl e, r3) \<Rightarrow> rest = [] \<and> res = Inl (Wrapf ''Error setting SSL Policy: '' e) \<and>
                            d' = d\<lparr>rd_id := Get name d\<rparr>
           | (Inr op2, r3) \<Rightarrow>
               take 1 rest = [SharedOperationWait op2 pr ''Adding Target SSL Proxy SSL Policy''])"
  using assms
  by (auto simp: ssl_create_run ssl_create_ssl_policy_run and_then_def issued_def attach_link_def SetId_def
      split: sum.splits prod.splits option.splits if_splits dest!: ssl_read_trace)

lemma https_create_no_policy:
  assumes "Get ssl_policy d = []"
    and "resourceComputeTargetHttpsProxyCreate cfg (d, w) = (res, (d', w'))"
  shows "filter is_SetSslPolicy (issued w w') = []"
  using assms
  by (auto simp: https_create_run https_create_ssl_policy_run and_then_def issued_def attach_link_def SetId_def
      split: sum.splits prod.splits option.splits if_splits dest!: https_read_trace)

lemma https_create_at_most_one:
  assumes "resourceComputeTargetHttpsProxyCreate cfg (d, w) = (res, (d', w'))"
  shows "length (filter is_SetSslPolicy (issued w w')) \<le> 1"
  using assms
  by (auto simp: https_create_run https_create_ssl_policy_run and_then_def issued_def attach_link_def SetId_def
      split: sum.splits prod.splits option.splits if_splits dest!: https_read_trace)

lemma https_create_policy:
  assumes "Get ssl_policy d \<noteq> []"
    and "getProject cfg d = Inr pr"
    and "expandSslCertificates cfg d = Inr certs"
    and "https_Insert (TargetHttpsProxies cfg) pr (https_payload d certs) (remote w) = (Inr op, r1)"
    and "computeOperationWait cfg op pr ''Creating Target Https Proxy'' r1 = (None, r2)"
    and "resourceComputeTargetHttpsProxyCreate cfg (d, w) = (res, (d', w'))"
  shows "\<exists>rest. issued w w' =
            [HttpsInsert pr (https_payload d certs), OperationWait op pr ''Creating Target Https Proxy'',
             HttpsSetSslPolicy pr (Get name d) (attach_link cfg d)] @ rest \<and>
          filter is_SetSslPolicy rest = [] \<and>
          (case https_SetSslPolicy (TargetHttpsProxies cfg) pr (Get name d) (attach_link cfg d) r2 of
             (Inl e, r3) \<Rightarrow> rest = [] \<and> res = Inl (Wrapf ''Error setting Target HTTPS Proxy SSL Policy: '' e) \<and>
                            d' = d\<lparr>rd_id := Get name d\<rparr>
           | (Inr op2, r3) \<Rightarrow>
               take 1 rest = [SharedOperationWait op2 pr ''Adding Target HTTPS Proxy SSL Policy''])"
  using assms
  by (auto simp: https_create_run https_create_ssl_policy_run and_then_def issued_def attach_link_def SetId_def
      split: sum.splits prod.splits option.splits if_splits dest!: https_read_trace)


text \<open>
  C4. A create whose declaration has no \<open>ssl_policy\<close> issues no policy-attach request,
  however it ends. A create whose declaration has one, and whose insert operation has
  completed (the project resolved, the certificates expanded, the insert request and its
  wait succeeded), issues the insert, the wait and then exactly one policy-attach request,
  for the declared name and with the link parsed on the local state that already carries
  the new identity; when the attach request returns an operation the next request is the
  wait on that operation, and when it fails create returns the wrapped error with the
  identity set. No create issues more than one policy-attach request.
\<close>

theorem create_attaches_policy_once:
  "(Get ssl_policy d = [] \<and> resourceComputeTargetSslProxyCreate cfg (d, w) = (res, (d', w')) \<longrightarrow>
      filter is_SetSslPolicy (issued w w') = []) \<and>
   (resourceComputeTargetSslProxyCreate cfg (d, w) = (res, (d', w')) \<longrightarrow>
      length (filter is_SetSslPolicy (issued w w')) \<le> 1) \<and>
   (Get ssl_policy d \<noteq> [] \<and> getProject cfg d = Inr pr \<and>
    expandSslCertificates cfg d = Inr certs \<and>
    ssl_Insert (TargetSslProxies cfg) pr (ssl_payload d certs) (remote w) = (Inr op, r1) \<and>
    computeOperationWait cfg op pr ''Creating Target Ssl Proxy'' r1 = (None, r2) \<and>
    resourceComputeTargetSslProxyCreate cfg (d, w) = (res, (d', w')) \<longrightarrow>
      (\<exists>rest. issued w w' =
            [SslInsert pr (ssl_payload d certs), OperationWait op pr ''Creating Target Ssl Proxy'',
             SslSetSslPolicy pr (Get name d) (attach_link cfg d)] @ rest \<and>
          filter is_SetSslPolicy rest = [] \<and>
          (case ssl_SetSslPolicy (TargetSslProxies cfg) pr (Get name d) (attach_link cfg d) r2 of
             (Inl e, r3) \<Rightarrow> rest = [] \<and> res = Inl (Wrapf ''Error setting SSL Policy: '' e) \<and>
                            d' = d\<lparr>rd_id := Get name d\<rparr>
           | (Inr op2, r3) \<Rightarrow>
               take 1 rest = [SharedOperationWait op2 pr ''Adding Target SSL Proxy SSL Policy'']))) \<and>
   (Get ssl_policy d = [] \<and> resourceComputeTargetHttpsProxyCreate cfg (d, w) = (res, (d', w')) \<longrightarrow>
      filter is_SetSslPolicy (issued w w') = []) \<and>
   (resourceComputeTargetHttpsProxyCreate cfg (d, w) = (res, (d', w')) \<longrightarrow>
      length (filter is_SetSslPolicy (issued w w')) \<le> 1) \<and>
   (Get ssl_policy d \<noteq> [] \<and> getProject cfg d = Inr pr \<and>
    expandSslCertificates cfg d = Inr certs \<and>
    https_Insert (TargetHttpsProxies cfg) pr (https_payload d certs) (remote w) = (Inr op, r1) \<and>
    computeOperationWait cfg op pr ''Creating Target Https Proxy'' r1 = (None, r2) \<and>
    resourceComputeTargetHttpsProxyCreate cfg (d, w) = (res, (d', w')) \<longrightarrow>
      (\<exists>rest. issued w w' =
            [HttpsInsert pr (https_payload d certs), OperationWait op pr ''Creating Target Https Proxy'',
             HttpsSetSslPolicy pr (Get name d) (attach_link cfg d)] @ rest \<and>
          filter is_SetSslPolicy rest = [] \<and>
          (case https_SetSslPolicy (TargetHttpsProxies cfg) pr (Get name d) (attach_link cfg d) r2 of
             (Inl e, r3) \<Rightarrow> rest = [] \<and>
                            res = Inl (Wrapf ''Error setting Target HTTPS Proxy SSL Policy: '' e) \<and>
                            d' = d\<lparr>rd_id := Get name d\<rparr>
           | (Inr op2, r3) \<Rightarrow>
               take 1 rest = [SharedOperationWait op2 pr ''Adding Target HTTPS Proxy SSL Policy''])))"
  using ssl_create_no_policy[of d cfg w res d' w'] ssl_create_at_most_one[of cfg d w res d' w']
    ssl_create_policy[of d cfg pr certs w op r1 r2 res d' w']
    https_create_no_policy[of d cfg w res d' w'] https_create_at_most_one[of cfg d w res d' w']
    https_create_policy[of d cfg pr certs w op r1 r2 res d' w']
  by blast

theorem create_attaches_policy_once_witness:
  "Get ssl_policy (declare_new ssl_decl) = [] \<and>
   filter is_SetSslPolicy (issued empty_world (snd (snd
     (resourceComputeTargetSslProxyCreate demo_cfg (declare_new ssl_decl, empty_world))))) = [] \<and>
   Get ssl_policy (declare_new (ssl_decl\<lparr>ssl_policy := ''pol''\<rparr>)) \<noteq> [] \<and>
   getProject demo_cfg (declare_new (ssl_decl\<lparr>ssl_policy := ''pol''\<rparr>)) = Inr ''p'' \<and>
   expandSslCertificates demo_cfg (declare_new (ssl_decl\<lparr>ssl_policy := ''pol''\<rparr>)) =
     Inr [''projects/p/global/sslCertificates/c1''] \<and>
   filter is_SetSslPolicy (issued empty_world (snd (snd
     (resourceComputeTargetSslProxyCreate demo_cfg
        (declare_new (ssl_decl\<lparr>ssl_policy := ''pol''\<rparr>), empty_world))))) =
     [SslSetSslPolicy ''p'' ''px'' ''projects/p/global/sslPolicies/pol''] \<and>
   take 4 (issued empty_world (snd (snd
     (resourceComputeTargetSslProxyCreate demo_cfg
        (declare_new (ssl_decl\<lparr>ssl_policy := ''pol''\<rparr>), empty_world))))) =
     [SslInsert ''p'' (ssl_payload (declare_new (ssl_decl\<lparr>ssl_policy := ''pol''\<rparr>))
        [''projects/p/global/sslCertificates/c1'']),
      OperationWait (Operation ''insert'') ''p'' ''Creating Target Ssl Proxy'',
      SslSetSslPolicy ''p'' ''px'' ''projects/p/global/sslPolicies/pol'',
      SharedOperationWait (Operation ''update'') ''p'' ''Adding Target SSL Proxy SSL Policy''] \<and>
   filter is_SetSslPolicy (issued empty_world (snd (snd
     (resourceComputeTargetHttpsProxyCreate demo_cfg (declare_new https_decl, empty_world))))) = [] \<and>
   getProject demo_cfg (declare_new (https_decl\<lparr>ssl_policy := ''pol''\<rparr>)) = Inr ''p'' \<and>
   expandSslCertificates demo_cfg (declare_new (https_decl\<lparr>ssl_policy := ''pol''\<rparr>)) =
     Inr [''projects/p/global/sslCertificates/c1'', ''projects/p/global/sslCertificates/c2''] \<and>
   filter is_SetSslPolicy (issued empty_world (snd (snd
     (resourceComputeTargetHttpsProxyCreate demo_cfg
        (declare_new (https_decl\<lparr>ssl_policy := ''pol''\<rparr>), empty_world))))) =
     [HttpsSetSslPolicy ''p'' ''px'' ''projects/p/global/sslPolicies/pol'']"
proof -
  let ?d0 = "declare_new ssl_decl"
  let ?d1 = "declare_new (ssl_decl\<lparr>ssl_policy := ''pol''\<rparr>)"
  let ?h0 = "declare_new https_decl"
  let ?h1 = "declare_new (https_decl\<lparr>ssl_policy := ''pol''\<rparr>)"
  let ?S = "\<lambda>d. resourceComputeTargetSslProxyCreate demo_cfg (d, empty_world)"
  let ?H = "\<lambda>d. resourceComputeTargetHttpsProxyCreate demo_cfg (d, empty_world)"
  let ?sc = "[''projects/p/global/sslCertificates/c1'']"
  let ?hc = "[''projects/p/global/sslCertificates/c1'', ''projects/p/global/sslCertificates/c2'']"
  have hyp: "Get ssl_policy ?d0 = []" "Get ssl_policy ?d1 \<noteq> []"
    "getProject demo_cfg ?d1 = Inr ''p''"
    "expandSslCertificates demo_cfg ?d1 = Inr ?sc"
    "Get ssl_policy ?h0 = []" "Get ssl_policy ?h1 \<noteq> []"
    "getProject demo_cfg ?h1 = Inr ''p''"
    "expandSslCertificates demo_cfg ?h1 = Inr ?hc"
    by (simp_all add: eval_defs demo_defs)
  have ins: "ssl_Insert (TargetSslProxies demo_cfg) ''p'' (ssl_payload ?d1 ?sc) (remote empty_world) =
      (Inr (Operation ''insert''),
       snd (ssl_Insert (TargetSslProxies demo_cfg) ''p'' (ssl_payload ?d1 ?sc) (remote empty_world)))"
    "https_Insert (TargetHttpsProxies demo_cfg) ''p'' (https_payload ?h1 ?hc) (remote empty_world) =
      (Inr (Operation ''insert''),
       snd (https_Insert (TargetHttpsProxies demo_cfg) ''p'' (https_payload ?h1 ?hc) (remote empty_world)))"
    by (simp_all add: demo_defs)
  have wt: "computeOperationWait demo_cfg op pr a r = (None, r)" for op pr a r
    by (simp add: demo_defs)
  have att: "ssl_SetSslPolicy (TargetSslProxies demo_cfg) ''p'' ''px''
       ''projects/p/global/sslPolicies/pol''
       (snd (ssl_Insert (TargetSslProxies demo_cfg) ''p'' (ssl_payload ?d1 ?sc) (remote empty_world))) =
     (Inr (Operation ''update''), snd (ssl_SetSslPolicy (TargetSslProxies demo_cfg) ''p'' ''px''
       ''projects/p/global/sslPolicies/pol''
       (snd (ssl_Insert (TargetSslProxies demo_cfg) ''p'' (ssl_payload ?d1 ?sc) (remote empty_world)))))"
    by (simp add: demo_defs eval_defs)
  have nm: "Get name ?d1 = ''px''" "attach_link demo_cfg ?d1 = ''projects/p/global/sslPolicies/pol''"
    "Get name ?h1 = ''px''" "attach_link demo_cfg ?h1 = ''projects/p/global/sslPolicies/pol''"
    by (simp_all add: demo_defs eval_defs)
  have split3: "x = (fst x, fst (snd x), snd (snd x))" for x :: "'a \<times> 'b \<times> 'c"
    by simp
  note t = create_attaches_policy_once[of _ demo_cfg empty_world]
  have c1: "filter is_SetSslPolicy (issued empty_world (snd (snd (?S ?d0)))) = []"
    using t[of ?d0 "fst (?S ?d0)" "fst (snd (?S ?d0))" "snd (snd (?S ?d0))"] hyp(1)
      split3[of "?S ?d0"] by blast
  have c2: "filter is_SetSslPolicy (issued empty_world (snd (snd (?H ?h0)))) = []"
    using t[of ?h0 "fst (?H ?h0)" "fst (snd (?H ?h0))" "snd (snd (?H ?h0))"] hyp(5)
      split3[of "?H ?h0"] by blast
  have "\<exists>rest. issued empty_world (snd (snd (?S ?d1))) =
            [SslInsert ''p'' (ssl_payload ?d1 ?sc),
             OperationWait (Operation ''insert'') ''p'' ''Creating Target Ssl Proxy'',
             SslSetSslPolicy ''p'' (Get name ?d1) (attach_link demo_cfg ?d1)] @ rest \<and>
          filter is_SetSslPolicy rest = [] \<and>
          (case ssl_SetSslPolicy (TargetSslProxies demo_cfg) ''p'' (Get name ?d1)
                  (attach_link demo_cfg ?d1)
                  (snd (ssl_Insert (TargetSslProxies demo_cfg) ''p'' (ssl_payload ?d1 ?sc)
                     (remote empty_world))) of
             (Inl e, r3) \<Rightarrow> rest = [] \<and> fst (?S ?d1) = Inl (Wrapf ''Error setting SSL Policy: '' e) \<and>
                            fst (snd (?S ?d1)) = ?d1\<lparr>rd_id := Get name ?d1\<rparr>
           | (Inr op2, r3) \<Rightarrow>
               take 1 rest = [SharedOperationWait op2 ''p'' ''Adding Target SSL Proxy SSL Policy''])"
    using t[of ?d1 "fst (?S ?d1)" "fst (snd (?S ?d1))" "snd (snd (?S ?d1))" "''p''" ?sc
        "Operation ''insert''" _ _] hyp(2,3,4) ins(1) wt split3[of "?S ?d1"] by blast
  then have c3: "filter is_SetSslPolicy (issued empty_world (snd (snd (?S ?d1)))) =
       [SslSetSslPolicy ''p'' ''px'' ''projects/p/global/sslPolicies/pol''] \<and>
     take 4 (issued empty_world (snd (snd (?S ?d1)))) =
       [SslInsert ''p'' (ssl_payload ?d1 ?sc),
        OperationWait (Operation ''insert'') ''p'' ''Creating Target Ssl Proxy'',
        SslSetSslPolicy ''p'' ''px'' ''projects/p/global/sslPolicies/pol'',
        SharedOperationWait (Operation ''update'') ''p'' ''Adding Target SSL Proxy SSL Policy'']"
    using att by (auto simp: nm)
  have "\<exists>rest. issued empty_world (snd (snd (?H ?h1))) =
            [HttpsInsert ''p'' (https_payload ?h1 ?hc),
             OperationWait (Operation ''insert'') ''p'' ''Creating Target Https Proxy'',
             HttpsSetSslPolicy ''p'' (Get name ?h1) (attach_link demo_cfg ?h1)] @ rest \<and>
          filter is_SetSslPolicy rest = []"
    using t[of ?h1 "fst (?H ?h1)" "fst (snd (?H ?h1))" "snd (snd (?H ?h1))" "''p''" ?hc
        "Operation ''insert''" _ _] hyp(6,7,8) ins(2) wt split3[of "?H ?h1"] by blast
  then have c4: "filter is_SetSslPolicy (issued empty_world (snd (snd (?H ?h1)))) =
       [HttpsSetSslPolicy ''p'' ''px'' ''projects/p/global/sslPolicies/pol'']"
    by (auto simp: nm)
  from hyp c1 c2 c3 c4 show ?thesis by simp
qed

section \<open>Update\<close>

lemma Partial_frame [simp]:
  "HasChange key (Partial b d) = HasChange key d"
  "Get key (Partial b d) = Get key d"
  "rd_id (Partial b d) = rd_id d"
  "HasChange key (SetPartial k d) = HasChange key d"
  "Get key (SetPartial k d) = Get key d"
  "rd_id (SetPartial k d) = rd_id d"
  by (simp_all add: Partial_def SetPartial_def HasChange_def Get_def)

lemma ssl_update_proxy_header_run:
  "ssl_update_proxy_header cfg pr (d, w) =
    (if HasChange proxy_header d then
      (case ssl_SetProxyHeader (TargetSslProxies cfg) pr (rd_id d) (Get proxy_header d) (remote w) of
         (Inl e, r1) \<Rightarrow>
           (Inl (Errorf ''Error updating proxy_header: '' e), (d, \<lparr>remote = r1, trace = trace w @ [SslSetProxyHeader pr (rd_id d) (Get proxy_header d)]\<rparr>))
       | (Inr op, r1) \<Rightarrow>
           (case computeOperationWait cfg op pr ''Updating Target SSL Proxy'' r1 of
              (Some e, r2) \<Rightarrow>
                (Inl e, (d, \<lparr>remote = r2, trace = trace w @ [SslSetProxyHeader pr (rd_id d) (Get proxy_header d),
                   OperationWait op pr ''Updating Target SSL Proxy'']\<rparr>))
            | (None, r2) \<Rightarrow>
                (Inr (), (SetPartial ''proxy_header'' d, \<lparr>remote = r2, trace = trace w @ [SslSetProxyHeader pr (rd_id d) (Get proxy_header d),
                   OperationWait op pr ''Updating Target SSL Proxy'']\<rparr>))))
     else (Inr (), (d, w)))"
  by (simp add: ssl_update_proxy_header_def action_defs call_defs
      split: sum.splits prod.splits option.splits)

lemma ssl_update_backend_service_run:
  "ssl_update_backend_service cfg pr (d, w) =
    (if HasChange backend_service d then
      (case ssl_SetBackendService (TargetSslProxies cfg) pr (rd_id d) (Get backend_service d) (remote w) of
         (Inl e, r1) \<Rightarrow>
           (Inl (Errorf ''Error updating backend_service: '' e), (d, \<lparr>remote = r1, trace = trace w @ [SslSetBackendService pr (rd_id d) (Get backend_service d)]\<rparr>))
       | (Inr op, r1) \<Rightarrow>
           (case computeOperationWait cfg op pr ''Updating Target SSL Proxy'' r1 of
              (Some e, r2) \<Rightarrow>
                (Inl e, (d, \<lparr>remote = r2, trace = trace w @ [SslSetBackendService pr (rd_id d) (Get backend_service d),
                   OperationWait op pr ''Updating Target SSL Proxy'']\<rparr>))
            | (None, r2) \<Rightarrow>
                (Inr (), (SetPartial ''backend_service'' d, \<lparr>remote = r2, trace = trace w @ [SslSetBackendService pr (rd_id d) (Get backend_service d),
                   OperationWait op pr ''Updating Target SSL Proxy'']\<rparr>))))
     else (Inr (), (d, w)))"
  by (simp add: ssl_update_backend_service_def action_defs call_defs
      split: sum.splits prod.splits option.splits)

lemma https_update_url_map_run:
  "https_update_url_map cfg pr (d, w) =
    (if HasChange url_map d then
      (case https_SetUrlMap (TargetHttpsProxies cfg) pr (rd_id d) (Get url_map d) (remote w) of
         (Inl e, r1) \<Rightarrow>
           (Inl (Errorf ''Error updating Target HTTPS proxy URL map: '' e), (d, \<lparr>remote = r1, trace = trace w @ [HttpsSetUrlMap pr (rd_id d) (Get url_map d)]\<rparr>))
       | (Inr op, r1) \<Rightarrow>
           (case computeOperationWait cfg op pr ''Updating Target Https Proxy URL Map'' r1 of
              (Some e, r2) \<Rightarrow>
                (Inl e, (d, \<lparr>remote = r2, trace = trace w @ [HttpsSetUrlMap pr (rd_id d) (Get url_map d),
                   OperationWait op pr ''Updating Target Https Proxy URL Map'']\<rparr>))
            | (None, r2) \<Rightarrow>
                (Inr (), (SetPartial ''url_map'' d, \<lparr>remote = r2, trace = trace w @ [HttpsSetUrlMap pr (rd_id d) (Get url_map d),
                   OperationWait op pr ''Updating Target Https Proxy URL Map'']\<rparr>))))
     else (Inr (), (d, w)))"
  by (simp add: https_update_url_map_def action_defs call_defs
      split: sum.splits prod.splits option.splits)

lemma ssl_update_ssl_certificates_run:
  "ssl_update_ssl_certificates cfg pr (d, w) =
    (if HasChange ssl_certificates d then
      (case expandSslCertificates cfg d of
         Inl e \<Rightarrow> (Inl e, (d, w))
       | Inr certs \<Rightarrow>
          (case ssl_SetSslCertificates (TargetSslProxies cfg) pr (rd_id d) certs (remote w) of
             (Inl e, r1) \<Rightarrow>
               (Inl (Errorf ''Error updating backend_service: '' e), (d, \<lparr>remote = r1, trace = trace w @ [SslSetSslCertificates pr (rd_id d) certs]\<rparr>))
           | (Inr op, r1) \<Rightarrow>
               (case computeOperationWait cfg op pr ''Updating Target SSL Proxy'' r1 of
                  (Some e, r2) \<Rightarrow>
                    (Inl e, (d, \<lparr>remote = r2, trace = trace w @ [SslSetSslCertificates pr (rd_id d) certs,
                       OperationWait op pr ''Updating Target SSL Proxy'']\<rparr>))
                | (None, r2) \<Rightarrow>
                    (Inr (), (SetPartial ''ssl_certificates'' d, \<lparr>remote = r2, trace = trace w @ [SslSetSslCertificates pr (rd_id d) certs,
                       OperationWait op pr ''Updating Target SSL Proxy'']\<rparr>)))))
     else (Inr (), (d, w)))"
  by (simp add: ssl_update_ssl_certificates_def action_defs call_defs
      split: sum.splits prod.splits option.splits)

lemma https_update_ssl_certificates_run:
  "https_update_ssl_certificates cfg pr (d, w) =
    (if HasChange ssl_certificates d then
      (case expandSslCertificates cfg d of
         Inl e \<Rightarrow> (Inl e, (d, w))
       | Inr certs \<Rightarrow>
          (case https_SetSslCertificates (TargetHttpsProxies cfg) pr (rd_id d) certs (remote w) of
             (Inl e, r1) \<Rightarrow>
               (Inl (Errorf ''Error updating Target Https Proxy SSL Certificates: '' e), (d, \<lparr>remote = r1, trace = trace w @ [HttpsSetSslCertificates pr (rd_id d) certs]\<rparr>))
           | (Inr op, r1) \<Rightarrow>
               (case computeOperationWait cfg op pr ''Updating Target Https Proxy SSL certificates'' r1 of
                  (Some e, r2) \<Rightarrow>
                    (Inl e, (d, \<lparr>remote = r2, trace = trace w @ [HttpsSetSslCertificates pr (rd_id d) certs,
                       OperationWait op pr ''Updating Target Https Proxy SSL certificates'']\<rparr>))
                | (None, r2) \<Rightarrow>
                    (Inr (), (SetPartial ''ssl_certificate'' d, \<lparr>remote = r2, trace = trace w @ [HttpsSetSslCertificates pr (rd_id d) certs,
                       OperationWait op pr ''Updating Target Https Proxy SSL certificates'']\<rparr>)))))
     else (Inr (), (d, w)))"
  by (simp add: https_update_ssl_certificates_def action_defs call_defs
      split: sum.splits prod.splits option.splits)

lemma ssl_update_ssl_policy_run:
  "ssl_update_ssl_policy cfg pr (d, w) =
    (if HasChange ssl_policy d then
      (case ParseSslPolicyFieldValue cfg (Get ssl_policy d) d of
         (pol, Some e) \<Rightarrow> (Inl e, (d, w))
       | (pol, None) \<Rightarrow>
          (case ssl_SetSslPolicy (TargetSslProxies cfg) pr (rd_id d) (RelativeLink cfg pol) (remote w) of
             (Inl e, r1) \<Rightarrow>
               (Inl (e), (d, \<lparr>remote = r1, trace = trace w @ [SslSetSslPolicy pr (rd_id d) (RelativeLink cfg pol)]\<rparr>))
           | (Inr op, r1) \<Rightarrow>
               (case computeSharedOperationWait cfg op pr ''Updating Target SSL Proxy SSL Policy'' r1 of
                  (Some e, r2) \<Rightarrow>
                    (Inl e, (d, \<lparr>remote = r2, trace = trace w @ [SslSetSslPolicy pr (rd_id d) (RelativeLink cfg pol),
                       SharedOperationWait op pr ''Updating Target SSL Proxy SSL Policy'']\<rparr>))
                | (None, r2) \<Rightarrow>
                    (Inr (), (d, \<lparr>remote = r2, trace = trace w @ [SslSetSslPolicy pr (rd_id d) (RelativeLink cfg pol),
                       SharedOperationWait op pr ''Updating Target SSL Proxy SSL Policy'']\<rparr>)))))
     else (Inr (), (d, w)))"
  by (simp add: ssl_update_ssl_policy_def action_defs call_defs
      split: sum.splits prod.splits option.splits)

lemma https_update_ssl_policy_run:
  "https_update_ssl_policy cfg pr (d, w) =
    (if HasChange ssl_policy d then
      (case ParseSslPolicyFieldValue cfg (Get ssl_policy d) d of
         (pol, Some e) \<Rightarrow> (Inl e, (d, w))
       | (pol, None) \<Rightarrow>
          (case https_SetSslPolicy (TargetHttpsProxies cfg) pr (rd_id d) (RelativeLink cfg pol) (remote w) of
             (Inl e, r1) \<Rightarrow>
               (Inl (e), (d, \<lparr>remote = r1, trace = trace w @ [HttpsSetSslPolicy pr (rd_id d) (RelativeLink cfg pol)]\<rparr>))
           | (Inr op, r1) \<Rightarrow>
               (case computeSharedOperationWait cfg op pr ''Updating Target HTTPS Proxy SSL Policy'' r1 of
                  (Some e, r2) \<Rightarrow>
                    (Inl e, (d, \<lparr>remote = r2, trace = trace w @ [HttpsSetSslPolicy pr (rd_id d) (RelativeLink cfg pol),
                       SharedOperationWait op pr ''Updating Target HTTPS Proxy SSL Policy'']\<rparr>))
                | (None, r2) \<Rightarrow>
                    (Inr (), (d, \<lparr>remote = r2, trace = trace w @ [HttpsSetSslPolicy pr (rd_id d) (RelativeLink cfg pol),
                       SharedOperationWait op pr ''Updating Target HTTPS Proxy SSL Policy'']\<rparr>)))))
     else (Inr (), (d, w)))"
  by (simp add: https_update_ssl_policy_def action_defs call_defs
      split: sum.splits prod.splits option.splits)

lemma ssl_update_run:
  "resourceComputeTargetSslProxyUpdate cfg (d, w) =
    (case getProject cfg d of
       Inl e \<Rightarrow> (Inl e, (d, w))
     | Inr pr \<Rightarrow>
         and_then (run_all (ssl_update_groups cfg pr))
           (\<lambda>_. and_then (modify (Partial False)) (\<lambda>_. resourceComputeTargetSslProxyRead cfg))
           (Partial True d, w))"
  by (simp add: resourceComputeTargetSslProxyUpdate_def ssl_update_groups_def and_then_def
      lift_def modify_def succeed_def split: sum.splits prod.splits)

lemma https_update_run:
  "resourceComputeTargetHttpsProxyUpdate cfg (d, w) =
    (case getProject cfg d of
       Inl e \<Rightarrow> (Inl e, (d, w))
     | Inr pr \<Rightarrow>
         and_then (run_all (https_update_groups cfg pr))
           (\<lambda>_. and_then (modify (Partial False)) (\<lambda>_. resourceComputeTargetHttpsProxyRead cfg))
           (Partial True d, w))"
  by (simp add: resourceComputeTargetHttpsProxyUpdate_def https_update_groups_def and_then_def
      lift_def modify_def succeed_def split: sum.splits prod.splits)

lemma ssl_idle_update:
  assumes "\<not> HasChange proxy_header d" "\<not> HasChange backend_service d"
    "\<not> HasChange ssl_certificates d" "\<not> HasChange ssl_policy d"
  shows "resourceComputeTargetSslProxyUpdate cfg (d, w) =
    (case getProject cfg d of
       Inl e \<Rightarrow> (Inl e, (d, w))
     | Inr pr \<Rightarrow> resourceComputeTargetSslProxyRead cfg (Partial False (Partial True d), w))"
  using assms
  by (simp add: ssl_update_run ssl_update_groups_def ssl_update_proxy_header_run
      ssl_update_backend_service_run ssl_update_ssl_certificates_run ssl_update_ssl_policy_run
      and_then_def succeed_def modify_def split: sum.splits)

lemma https_idle_update:
  assumes "\<not> HasChange url_map d" "\<not> HasChange ssl_certificates d" "\<not> HasChange ssl_policy d"
  shows "resourceComputeTargetHttpsProxyUpdate cfg (d, w) =
    (case getProject cfg d of
       Inl e \<Rightarrow> (Inl e, (d, w))
     | Inr pr \<Rightarrow> resourceComputeTargetHttpsProxyRead cfg (Partial False (Partial True d), w))"
  using assms
  by (simp add: https_update_run https_update_groups_def https_update_url_map_run
      https_update_ssl_certificates_run https_update_ssl_policy_run
      and_then_def succeed_def modify_def split: sum.splits)

lemma ssl_idle_update_trace:
  assumes "\<not> HasChange proxy_header d" "\<not> HasChange backend_service d"
    "\<not> HasChange ssl_certificates d" "\<not> HasChange ssl_policy d"
    and "resourceComputeTargetSslProxyUpdate cfg (d, w) = (res, (d', w'))"
  shows "remote w' = remote w \<and> filter is_mutation (issued w w') = [] \<and>
         (issued w w' = [] \<or> (\<exists>pr. issued w w' = [SslGet pr (rd_id d)])) \<and>
         rd_state d' = rd_state d"
proof (cases "getProject cfg d")
  case (Inl e)
  with assms show ?thesis by (simp add: ssl_idle_update issued_def)
next
  case (Inr pr)
  with assms have r: "resourceComputeTargetSslProxyRead cfg (Partial False (Partial True d), w) =
      (res, (d', w'))"
    by (simp add: ssl_idle_update)
  from ssl_read_trace[OF r] have "remote w' = remote w"
    and "issued w w' = [] \<or> (\<exists>pr. issued w w' = [SslGet pr (rd_id d)])"
    by (auto simp: issued_def)
  moreover from r have "rd_state d' = rd_state d"
    by (auto simp: ssl_read_run Partial_def split: sum.splits if_splits)
  ultimately show ?thesis by auto
qed

lemma https_idle_update_trace:
  assumes "\<not> HasChange url_map d" "\<not> HasChange ssl_certificates d" "\<not> HasChange ssl_policy d"
    and "resourceComputeTargetHttpsProxyUpdate cfg (d, w) = (res, (d', w'))"
  shows "remote w' = remote w \<and> filter is_mutation (issued w w') = [] \<and>
         (issued w w' = [] \<or> (\<exists>pr. issued w w' = [HttpsGet pr (rd_id d)])) \<and>
         rd_state d' = rd_state d"
proof (cases "getProject cfg d")
  case (Inl e)
  with assms show ?thesis by (simp add: https_idle_update issued_def)
next
  case (Inr pr)
  with assms have r: "resourceComputeTargetHttpsProxyRead cfg (Partial False (Partial True d), w) =
      (res, (d', w'))"
    by (simp add: https_idle_update)
  from https_read_trace[OF r] have "remote w' = remote w"
    and "issued w w' = [] \<or> (\<exists>pr. issued w w' = [HttpsGet pr (rd_id d)])"
    by (auto simp: issued_def)
  moreover from r have "rd_state d' = rd_state d"
    by (auto simp: https_read_run Partial_def split: sum.splits if_splits)
  ultimately show ?thesis by auto
qed

text \<open>
  C10. An update in which no mutable field group has changed is a single read-reconcile
  pass: when the project does not resolve it returns that error with nothing changed, and
  otherwise it is exactly the read (on the local state with partial mode switched on and off
  again). It sends no mutating request, at most the one fetch of the read, leaves the remote
  state and the last-known values as they were, and changes local values only as the read
  does.
\<close>

theorem update_without_changes_is_read:
  "(\<not> HasChange proxy_header d \<and> \<not> HasChange backend_service d \<and>
    \<not> HasChange ssl_certificates d \<and> \<not> HasChange ssl_policy d \<longrightarrow>
      resourceComputeTargetSslProxyUpdate cfg (d, w) =
        (case getProject cfg d of
           Inl e \<Rightarrow> (Inl e, (d, w))
         | Inr pr \<Rightarrow> resourceComputeTargetSslProxyRead cfg (Partial False (Partial True d), w)) \<and>
      (resourceComputeTargetSslProxyUpdate cfg (d, w) = (res, (d', w')) \<longrightarrow>
         remote w' = remote w \<and> filter is_mutation (issued w w') = [] \<and>
         (issued w w' = [] \<or> (\<exists>pr. issued w w' = [SslGet pr (rd_id d)])) \<and>
         rd_state d' = rd_state d)) \<and>
   (\<not> HasChange url_map d \<and> \<not> HasChange ssl_certificates d \<and> \<not> HasChange ssl_policy d \<longrightarrow>
      resourceComputeTargetHttpsProxyUpdate cfg (d, w) =
        (case getProject cfg d of
           Inl e \<Rightarrow> (Inl e, (d, w))
         | Inr pr \<Rightarrow> resourceComputeTargetHttpsProxyRead cfg (Partial False (Partial True d), w)) \<and>
      (resourceComputeTargetHttpsProxyUpdate cfg (d, w) = (res, (d', w')) \<longrightarrow>
         remote w' = remote w \<and> filter is_mutation (issued w w') = [] \<and>
         (issued w w' = [] \<or> (\<exists>pr. issued w w' = [HttpsGet pr (rd_id d)])) \<and>
         rd_state d' = rd_state d))"
  using ssl_idle_update[of d cfg w] ssl_idle_update_trace[of d cfg w res d' w']
    https_idle_update[of d cfg w] https_idle_update_trace[of d cfg w res d' w']
  by blast

theorem update_without_changes_is_read_witness:
  "\<not> HasChange proxy_header (known ssl_decl) \<and> \<not> HasChange backend_service (known ssl_decl) \<and>
   \<not> HasChange ssl_certificates (known ssl_decl) \<and> \<not> HasChange ssl_policy (known ssl_decl) \<and>
   resourceComputeTargetSslProxyUpdate demo_cfg (known ssl_decl, stored_world) =
     resourceComputeTargetSslProxyRead demo_cfg (Partial False (Partial True (known ssl_decl)), stored_world) \<and>
   issued stored_world (snd (snd (resourceComputeTargetSslProxyUpdate demo_cfg
      (known ssl_decl, stored_world)))) = [SslGet ''p'' ''px''] \<and>
   remote (snd (snd (resourceComputeTargetSslProxyUpdate demo_cfg (known ssl_decl, stored_world)))) =
     remote stored_world \<and>
   \<not> HasChange url_map (known https_decl) \<and> \<not> HasChange ssl_certificates (known https_decl) \<and>
   \<not> HasChange ssl_policy (known https_decl) \<and>
   resourceComputeTargetHttpsProxyUpdate demo_cfg (known https_decl, stored_world) =
     resourceComputeTargetHttpsProxyRead demo_cfg (Partial False (Partial True (known https_decl)), stored_world) \<and>
   issued stored_world (snd (snd (resourceComputeTargetHttpsProxyUpdate demo_cfg
      (known https_decl, stored_world)))) = [HttpsGet ''p'' ''px''] \<and>
   remote (snd (snd (resourceComputeTargetHttpsProxyUpdate demo_cfg (known https_decl, stored_world)))) =
     remote stored_world"
proof -
  let ?U = "resourceComputeTargetSslProxyUpdate demo_cfg (known ssl_decl, stored_world)"
  let ?V = "resourceComputeTargetHttpsProxyUpdate demo_cfg (known https_decl, stored_world)"
  have hs: "\<not> HasChange proxy_header (known ssl_decl) \<and> \<not> HasChange backend_service (known ssl_decl) \<and>
      \<not> HasChange ssl_certificates (known ssl_decl) \<and> \<not> HasChange ssl_policy (known ssl_decl)"
    and hh: "\<not> HasChange url_map (known https_decl) \<and> \<not> HasChange ssl_certificates (known https_decl) \<and>
      \<not> HasChange ssl_policy (known https_decl)"
    by (simp_all add: HasChange_def known_def)
  have pj: "getProject demo_cfg (known ssl_decl) = Inr ''p''"
    "getProject demo_cfg (known https_decl) = Inr ''p''"
    by (simp_all add: demo_defs Get_def)
  have split3: "x = (fst x, fst (snd x), snd (snd x))" for x :: "'a \<times> 'b \<times> 'c"
    by simp
  note ts = update_without_changes_is_read[of "known ssl_decl" demo_cfg stored_world
      "fst ?U" "fst (snd ?U)" "snd (snd ?U)", THEN conjunct1, rule_format, OF hs]
  note th = update_without_changes_is_read[of "known https_decl" demo_cfg stored_world
      "fst ?V" "fst (snd ?V)" "snd (snd ?V)", THEN conjunct2, rule_format, OF hh]
  have s1: "?U = resourceComputeTargetSslProxyRead demo_cfg
        (Partial False (Partial True (known ssl_decl)), stored_world)"
    using ts[THEN conjunct1] pj by simp
  have h1: "?V = resourceComputeTargetHttpsProxyRead demo_cfg
        (Partial False (Partial True (known https_decl)), stored_world)"
    using th[THEN conjunct1] pj by simp
  have s2: "remote (snd (snd ?U)) = remote stored_world"
    using ts[THEN conjunct2, rule_format, OF split3] by blast
  have h2: "remote (snd (snd ?V)) = remote stored_world"
    using th[THEN conjunct2, rule_format, OF split3] by blast
  have s3: "issued stored_world (snd (snd ?U)) = [SslGet ''p'' ''px'']"
    unfolding s1 by (simp add: ssl_read_run demo_defs Get_def Partial_def issued_def)
  have h3: "issued stored_world (snd (snd ?V)) = [HttpsGet ''p'' ''px'']"
    unfolding h1 by (simp add: https_read_run demo_defs Get_def Partial_def issued_def)
  from hs hh s1 h1 s2 h2 s3 h3 show ?thesis by simp
qed

section \<open>A failure partway through an update\<close>

lemma run_all_fails_at:
  "k < length bs \<Longrightarrow> run_all (take k bs) s = (Inr (), sk) \<Longrightarrow> (bs ! k) sk = (Inl e, s') \<Longrightarrow>
   run_all bs s = (Inl e, s')"
proof (induction bs arbitrary: k s)
  case Nil
  then show ?case by simp
next
  case (Cons b bs)
  show ?case
  proof (cases k)
    case 0
    with Cons.prems show ?thesis by (simp add: and_then_def succeed_def)
  next
    case (Suc j)
    with Cons.prems obtain s1 where b: "b s = (Inr (), s1)"
      and rest: "run_all (take j bs) s1 = (Inr (), sk)"
      by (auto simp: and_then_def split: prod.splits sum.splits)
    from Cons.prems Suc have "j < length bs" "(bs ! j) sk = (Inl e, s')" by simp_all
    from Cons.IH[OF this(1) rest this(2)] b show ?thesis by (simp add: and_then_def)
  qed
qed

lemma ssl_update_fails_at:
  assumes "getProject cfg d = Inr pr" and "k < 4"
    and "run_all (take k (ssl_update_groups cfg pr)) (Partial True d, w) = (Inr (), sk)"
    and "(ssl_update_groups cfg pr ! k) sk = (Inl e, s')"
  shows "resourceComputeTargetSslProxyUpdate cfg (d, w) = (Inl e, s')"
proof -
  have "k < length (ssl_update_groups cfg pr)"
    using assms(2) by (simp add: ssl_update_groups_def)
  from run_all_fails_at[OF this assms(3,4)] assms(1) show ?thesis
    by (simp add: ssl_update_run and_then_def)
qed

lemma https_update_fails_at:
  assumes "getProject cfg d = Inr pr" and "k < 3"
    and "run_all (take k (https_update_groups cfg pr)) (Partial True d, w) = (Inr (), sk)"
    and "(https_update_groups cfg pr ! k) sk = (Inl e, s')"
  shows "resourceComputeTargetHttpsProxyUpdate cfg (d, w) = (Inl e, s')"
proof -
  have "k < length (https_update_groups cfg pr)"
    using assms(2) by (simp add: https_update_groups_def)
  from run_all_fails_at[OF this assms(3,4)] assms(1) show ?thesis
    by (simp add: https_update_run and_then_def)
qed

text \<open>
  C6. When, in an update, the request of a field group or the wait on its operation fails
  after the groups before it have completed, update returns at once: its result is the
  error of that group (the request's error in the group's context string, the policy
  request's error and every wait's error as they are) and its final state is the state the
  failing call left. That state is the local state as the earlier groups left it, the
  remote state the failing call returned, and a trace that ends with the failing call:
  nothing of a later group, no fetch and no compensating request follows, and nothing the
  earlier groups did is undone.
\<close>

theorem update_stops_at_first_failure:
  "(getProject cfg d = Inr pr \<and> k < 4 \<and>
    run_all (take k (ssl_update_groups cfg pr)) (Partial True d, w) = (Inr (), sk) \<and>
    (ssl_update_groups cfg pr ! k) sk = (Inl err, s') \<longrightarrow>
      resourceComputeTargetSslProxyUpdate cfg (d, w) = (Inl err, s')) \<and>
   (getProject cfg d = Inr pr \<and> k < 3 \<and>
    run_all (take k (https_update_groups cfg pr)) (Partial True d, w) = (Inr (), sk) \<and>
    (https_update_groups cfg pr ! k) sk = (Inl err, s') \<longrightarrow>
      resourceComputeTargetHttpsProxyUpdate cfg (d, w) = (Inl err, s')) \<and>
   (HasChange proxy_header dk \<and>
    ssl_SetProxyHeader (TargetSslProxies cfg) pr (rd_id dk) (Get proxy_header dk) (remote wk) = (Inl e, r1) \<longrightarrow>
      ssl_update_proxy_header cfg pr (dk, wk) =
        (Inl (Errorf ''Error updating proxy_header: '' e),
         (dk, \<lparr>remote = r1, trace = trace wk @ [SslSetProxyHeader pr (rd_id dk) (Get proxy_header dk)]\<rparr>))) \<and>
   (HasChange proxy_header dk \<and>
    ssl_SetProxyHeader (TargetSslProxies cfg) pr (rd_id dk) (Get proxy_header dk) (remote wk) = (Inr op, r1) \<and>
    computeOperationWait cfg op pr ''Updating Target SSL Proxy'' r1 = (Some e, r2) \<longrightarrow>
      ssl_update_proxy_header cfg pr (dk, wk) =
        (Inl e, (dk, \<lparr>remote = r2, trace = trace wk @ [SslSetProxyHeader pr (rd_id dk) (Get proxy_header dk),
           OperationWait op pr ''Updating Target SSL Proxy'']\<rparr>))) \<and>
   (HasChange backend_service dk \<and>
    ssl_SetBackendService (TargetSslProxies cfg) pr (rd_id dk) (Get backend_service dk) (remote wk) = (Inl e, r1) \<longrightarrow>
      ssl_update_backend_service cfg pr (dk, wk) =
        (Inl (Errorf ''Error updating backend_service: '' e),
         (dk, \<lparr>remote = r1, trace = trace wk @ [SslSetBackendService pr (rd_id dk) (Get backend_service dk)]\<rparr>))) \<and>
   (HasChange backend_service dk \<and>
    ssl_SetBackendService (TargetSslProxies cfg) pr (rd_id dk) (Get backend_service dk) (remote wk) = (Inr op, r1) \<and>
    computeOperationWait cfg op pr ''Updating Target SSL Proxy'' r1 = (Some e, r2) \<longrightarrow>
      ssl_update_backend_service cfg pr (dk, wk) =
        (Inl e, (dk, \<lparr>remote = r2, trace = trace wk @ [SslSetBackendService pr (rd_id dk) (Get backend_service dk),
           OperationWait op pr ''Updating Target SSL Proxy'']\<rparr>))) \<and>
   (HasChange ssl_certificates dk \<and> expandSslCertificates cfg dk = Inr certs \<and>
    ssl_SetSslCertificates (TargetSslProxies cfg) pr (rd_id dk) certs (remote wk) = (Inl e, r1) \<longrightarrow>
      ssl_update_ssl_certificates cfg pr (dk, wk) =
        (Inl (Errorf ''Error updating backend_service: '' e),
         (dk, \<lparr>remote = r1, trace = trace wk @ [SslSetSslCertificates pr (rd_id dk) certs]\<rparr>))) \<and>
   (HasChange ssl_certificates dk \<and> expandSslCertificates cfg dk = Inr certs \<and>
    ssl_SetSslCertificates (TargetSslProxies cfg) pr (rd_id dk) certs (remote wk) = (Inr op, r1) \<and>
    computeOperationWait cfg op pr ''Updating Target SSL Proxy'' r1 = (Some e, r2) \<longrightarrow>
      ssl_update_ssl_certificates cfg pr (dk, wk) =
        (Inl e, (dk, \<lparr>remote = r2, trace = trace wk @ [SslSetSslCertificates pr (rd_id dk) certs,
           OperationWait op pr ''Updating Target SSL Proxy'']\<rparr>))) \<and>
   (HasChange ssl_policy dk \<and>
    ParseSslPolicyFieldValue cfg (Get ssl_policy dk) dk = (pol, None) \<and>
    ssl_SetSslPolicy (TargetSslProxies cfg) pr (rd_id dk) (RelativeLink cfg pol) (remote wk) = (Inl e, r1) \<longrightarrow>
      ssl_update_ssl_policy cfg pr (dk, wk) =
        (Inl (e),
         (dk, \<lparr>remote = r1, trace = trace wk @ [SslSetSslPolicy pr (rd_id dk) (RelativeLink cfg pol)]\<rparr>))) \<and>
   (HasChange ssl_policy dk \<and>
    ParseSslPolicyFieldValue cfg (Get ssl_policy dk) dk = (pol, None) \<and>
    ssl_SetSslPolicy (TargetSslProxies cfg) pr (rd_id dk) (RelativeLink cfg pol) (remote wk) = (Inr op, r1) \<and>
    computeSharedOperationWait cfg op pr ''Updating Target SSL Proxy SSL Policy'' r1 = (Some e, r2) \<longrightarrow>
      ssl_update_ssl_policy cfg pr (dk, wk) =
        (Inl e, (dk, \<lparr>remote = r2, trace = trace wk @ [SslSetSslPolicy pr (rd_id dk) (RelativeLink cfg pol),
           SharedOperationWait op pr ''Updating Target SSL Proxy SSL Policy'']\<rparr>))) \<and>
   (HasChange url_map dk \<and>
    https_SetUrlMap (TargetHttpsProxies cfg) pr (rd_id dk) (Get url_map dk) (remote wk) = (Inl e, r1) \<longrightarrow>
      https_update_url_map cfg pr (dk, wk) =
        (Inl (Errorf ''Error updating Target HTTPS proxy URL map: '' e),
         (dk, \<lparr>remote = r1, trace = trace wk @ [HttpsSetUrlMap pr (rd_id dk) (Get url_map dk)]\<rparr>))) \<and>
   (HasChange url_map dk \<and>
    https_SetUrlMap (TargetHttpsProxies cfg) pr (rd_id dk) (Get url_map dk) (remote wk) = (Inr op, r1) \<and>
    computeOperationWait cfg op pr ''Updating Target Https Proxy URL Map'' r1 = (Some e, r2) \<longrightarrow>
      https_update_url_map cfg pr (dk, wk) =
        (Inl e, (dk, \<lparr>remote = r2, trace = trace wk @ [HttpsSetUrlMap pr (rd_id dk) (Get url_map dk),
           OperationWait op pr ''Updating Target Https Proxy URL Map'']\<rparr>))) \<and>
   (HasChange ssl_certificates dk \<and> expandSslCertificates cfg dk = Inr certs \<and>
    https_SetSslCertificates (TargetHttpsProxies cfg) pr (rd_id dk) certs (remote wk) = (Inl e, r1) \<longrightarrow>
      https_update_ssl_certificates cfg pr (dk, wk) =
        (Inl (Errorf ''Error updating Target Https Proxy SSL Certificates: '' e),
         (dk, \<lparr>remote = r1, trace = trace wk @ [HttpsSetSslCertificates pr (rd_id dk) certs]\<rparr>))) \<and>
   (HasChange ssl_certificates dk \<and> expandSslCertificates cfg dk = Inr certs \<and>
    https_SetSslCertificates (TargetHttpsProxies cfg) pr (rd_id dk) certs (remote wk) = (Inr op, r1) \<and>
    computeOperationWait cfg op pr ''Updating Target Https Proxy SSL certificates'' r1 = (Some e, r2) \<longrightarrow>
      https_update_ssl_certificates cfg pr (dk, wk) =
        (Inl e, (dk, \<lparr>remote = r2, trace = trace wk @ [HttpsSetSslCertificates pr (rd_id dk) certs,
           OperationWait op pr ''Updating Target Https Proxy SSL certificates'']\<rparr>))) \<and>
   (HasChange ssl_policy dk \<and>
    ParseSslPolicyFieldValue cfg (Get ssl_policy dk) dk = (pol, None) \<and>
    https_SetSslPolicy (TargetHttpsProxies cfg) pr (rd_id dk) (RelativeLink cfg pol) (remote wk) = (Inl e, r1) \<longrightarrow>
      https_update_ssl_policy cfg pr (dk, wk) =
        (Inl (e),
         (dk, \<lparr>remote = r1, trace = trace wk @ [HttpsSetSslPolicy pr (rd_id dk) (RelativeLink cfg pol)]\<rparr>))) \<and>
   (HasChange ssl_policy dk \<and>
    ParseSslPolicyFieldValue cfg (Get ssl_policy dk) dk = (pol, None) \<and>
    https_SetSslPolicy (TargetHttpsProxies cfg) pr (rd_id dk) (RelativeLink cfg pol) (remote wk) = (Inr op, r1) \<and>
    computeSharedOperationWait cfg op pr ''Updating Target HTTPS Proxy SSL Policy'' r1 = (Some e, r2) \<longrightarrow>
      https_update_ssl_policy cfg pr (dk, wk) =
        (Inl e, (dk, \<lparr>remote = r2, trace = trace wk @ [HttpsSetSslPolicy pr (rd_id dk) (RelativeLink cfg pol),
           SharedOperationWait op pr ''Updating Target HTTPS Proxy SSL Policy'']\<rparr>)))"
  using ssl_update_fails_at[of cfg d pr k w sk err s'] https_update_fails_at[of cfg d pr k w sk err s']
  by (simp add: ssl_update_proxy_header_run ssl_update_backend_service_run
      ssl_update_ssl_certificates_run ssl_update_ssl_policy_run https_update_url_map_run
      https_update_ssl_certificates_run https_update_ssl_policy_run)

theorem update_stops_at_first_failure_witness:
  "fst (resourceComputeTargetSslProxyUpdate demo_cfg
      (changed ssl_decl (ssl_decl\<lparr>proxy_header := ''PROXY_V1'', backend_service := []\<rparr>),
       stored_world)) =
     Inl (Errorf ''Error updating backend_service: '' (Failure ''invalid backend service'')) \<and>
   issued stored_world (snd (snd (resourceComputeTargetSslProxyUpdate demo_cfg
      (changed ssl_decl (ssl_decl\<lparr>proxy_header := ''PROXY_V1'', backend_service := []\<rparr>),
       stored_world)))) =
     [SslSetProxyHeader ''p'' ''px'' ''PROXY_V1'',
      OperationWait (Operation ''update'') ''p'' ''Updating Target SSL Proxy'',
      SslSetBackendService ''p'' ''px'' []] \<and>
   stored_ssl (remote (snd (snd (resourceComputeTargetSslProxyUpdate demo_cfg
      (changed ssl_decl (ssl_decl\<lparr>proxy_header := ''PROXY_V1'', backend_service := []\<rparr>),
       stored_world))))) = Some (ssl_stored\<lparr>Ssl_ProxyHeader := ''PROXY_V1''\<rparr>) \<and>
   rd_partial_keys (fst (snd (resourceComputeTargetSslProxyUpdate demo_cfg
      (changed ssl_decl (ssl_decl\<lparr>proxy_header := ''PROXY_V1'', backend_service := []\<rparr>),
       stored_world)))) = [''proxy_header''] \<and>
   fst (resourceComputeTargetSslProxyUpdate stuck_cfg
      (changed ssl_decl (ssl_decl\<lparr>proxy_header := ''PROXY_V1'', backend_service := ''be2''\<rparr>),
       stored_world)) = Inl (Failure ''timeout'') \<and>
   issued stored_world (snd (snd (resourceComputeTargetSslProxyUpdate stuck_cfg
      (changed ssl_decl (ssl_decl\<lparr>proxy_header := ''PROXY_V1'', backend_service := ''be2''\<rparr>),
       stored_world)))) =
     [SslSetProxyHeader ''p'' ''px'' ''PROXY_V1'',
      OperationWait (Operation ''update'') ''p'' ''Updating Target SSL Proxy''] \<and>
   fst (resourceComputeTargetHttpsProxyUpdate demo_cfg
      (changed https_decl (https_decl\<lparr>url_map := ''um2'', ssl_certificates := []\<rparr>),
       stored_world)) =
     Inl (Errorf ''Error updating Target Https Proxy SSL Certificates: '' (Failure ''no certificate'')) \<and>
   issued stored_world (snd (snd (resourceComputeTargetHttpsProxyUpdate demo_cfg
      (changed https_decl (https_decl\<lparr>url_map := ''um2'', ssl_certificates := []\<rparr>),
       stored_world)))) =
     [HttpsSetUrlMap ''p'' ''px'' ''um2'',
      OperationWait (Operation ''update'') ''p'' ''Updating Target Https Proxy URL Map'',
      HttpsSetSslCertificates ''p'' ''px'' []] \<and>
   stored_https (remote (snd (snd (resourceComputeTargetHttpsProxyUpdate demo_cfg
      (changed https_decl (https_decl\<lparr>url_map := ''um2'', ssl_certificates := []\<rparr>),
       stored_world))))) = Some (https_stored\<lparr>Https_UrlMap := ''um2''\<rparr>)"
proof -
  let ?dA = "changed ssl_decl (ssl_decl\<lparr>proxy_header := ''PROXY_V1'', backend_service := []\<rparr>)"
  let ?dB = "changed ssl_decl (ssl_decl\<lparr>proxy_header := ''PROXY_V1'', backend_service := ''be2''\<rparr>)"
  let ?dC = "changed https_decl (https_decl\<lparr>url_map := ''um2'', ssl_certificates := []\<rparr>)"
  let ?rA = "\<lparr>stored_ssl = Some (ssl_stored\<lparr>Ssl_ProxyHeader := ''PROXY_V1''\<rparr>),
             stored_https = Some https_stored\<rparr>"
  let ?rC = "\<lparr>stored_ssl = Some ssl_stored,
             stored_https = Some (https_stored\<lparr>Https_UrlMap := ''um2''\<rparr>)\<rparr>"
  let ?tA = "[SslSetProxyHeader ''p'' ''px'' ''PROXY_V1'',
      OperationWait (Operation ''update'') ''p'' ''Updating Target SSL Proxy'']"
  let ?tC = "[HttpsSetUrlMap ''p'' ''px'' ''um2'',
      OperationWait (Operation ''update'') ''p'' ''Updating Target Https Proxy URL Map'']"
  let ?skA = "(SetPartial ''proxy_header'' (Partial True ?dA), \<lparr>remote = ?rA, trace = ?tA\<rparr>)"
  let ?sA = "(SetPartial ''proxy_header'' (Partial True ?dA),
      \<lparr>remote = ?rA, trace = ?tA @ [SslSetBackendService ''p'' ''px'' []]\<rparr>)"
  let ?skB = "(Partial True ?dB, stored_world)"
  let ?sB = "(Partial True ?dB, \<lparr>remote = ?rA, trace = ?tA\<rparr>)"
  let ?skC = "(SetPartial ''url_map'' (Partial True ?dC), \<lparr>remote = ?rC, trace = ?tC\<rparr>)"
  let ?sC = "(SetPartial ''url_map'' (Partial True ?dC),
      \<lparr>remote = ?rC, trace = ?tC @ [HttpsSetSslCertificates ''p'' ''px'' []]\<rparr>)"
  note runs = ssl_update_groups_def https_update_groups_def ssl_update_proxy_header_run
    ssl_update_backend_service_run https_update_url_map_run https_update_ssl_certificates_run
    and_then_def succeed_def HasChange_def Get_def Partial_def SetPartial_def
    expandSslCertificates_def demo_defs
  have pj: "getProject demo_cfg ?dA = Inr ''p''" "getProject stuck_cfg ?dB = Inr ''p''"
    "getProject demo_cfg ?dC = Inr ''p''"
    by (simp_all add: demo_defs Get_def)
  have k: "(1::nat) < 4" "(0::nat) < 4" "(1::nat) < 3"
    by simp_all
  have a1: "run_all (take 1 (ssl_update_groups demo_cfg ''p'')) (Partial True ?dA, stored_world) =
      (Inr (), ?skA)"
    by (simp add: runs)
  have a2: "(ssl_update_groups demo_cfg ''p'' ! 1) ?skA =
      (Inl (Errorf ''Error updating backend_service: '' (Failure ''invalid backend service'')), ?sA)"
    by (simp add: runs)
  have b1: "run_all (take 0 (ssl_update_groups stuck_cfg ''p'')) (Partial True ?dB, stored_world) =
      (Inr (), ?skB)"
    by (simp add: succeed_def)
  have b2: "(ssl_update_groups stuck_cfg ''p'' ! 0) ?skB = (Inl (Failure ''timeout''), ?sB)"
    by (simp add: runs)
  have c1: "run_all (take 1 (https_update_groups demo_cfg ''p'')) (Partial True ?dC, stored_world) =
      (Inr (), ?skC)"
    by (simp add: runs)
  have c2: "(https_update_groups demo_cfg ''p'' ! 1) ?skC =
      (Inl (Errorf ''Error updating Target Https Proxy SSL Certificates: ''
              (Failure ''no certificate'')), ?sC)"
    by (simp add: runs)
  note t = update_stops_at_first_failure
  have A: "resourceComputeTargetSslProxyUpdate demo_cfg (?dA, stored_world) =
      (Inl (Errorf ''Error updating backend_service: '' (Failure ''invalid backend service'')), ?sA)"
    using t[where cfg = demo_cfg and d = ?dA and pr = "''p''" and k = 1 and w = stored_world
        and sk = ?skA and s' = ?sA
        and err = "Errorf ''Error updating backend_service: '' (Failure ''invalid backend service'')"]
      pj(1) k(1) a1 a2 by blast
  have B: "resourceComputeTargetSslProxyUpdate stuck_cfg (?dB, stored_world) =
      (Inl (Failure ''timeout''), ?sB)"
    using t[where cfg = stuck_cfg and d = ?dB and pr = "''p''" and k = 0 and w = stored_world
        and sk = ?skB and s' = ?sB and err = "Failure ''timeout''"]
      pj(2) k(2) b1 b2 by blast
  have C: "resourceComputeTargetHttpsProxyUpdate demo_cfg (?dC, stored_world) =
      (Inl (Errorf ''Error updating Target Https Proxy SSL Certificates: ''
              (Failure ''no certificate'')), ?sC)"
    using t[where cfg = demo_cfg and d = ?dC and pr = "''p''" and k = 1 and w = stored_world
        and sk = ?skC and s' = ?sC
        and err = "Errorf ''Error updating Target Https Proxy SSL Certificates: ''
              (Failure ''no certificate'')"]
      pj(3) k(3) c1 c2 by blast
  show ?thesis
    unfolding A B C
    by (simp add: issued_def stored_world_def SetPartial_def Partial_def changed_def)
qed

end
